theory Spec2Isabelle
  imports Main "HOL-Library.Word"
begin

section \<open>The remote-execution client of internal/ssh/ssh.go\<close>

text \<open>
  The client talks to a file system, a network, a remote host and an external
  secure-copy tool. Each of these answers is taken from an oracle: an infinite
  sequence per kind of external call, consumed one answer per call. What the
  client does to the outside (dialing, sleeping, closing, logging) is appended
  to a trace.
\<close>

subsection \<open>Oracles\<close>

type_synonym 'a answers = "nat \<Rightarrow> 'a"

definition ohd :: "'a answers \<Rightarrow> 'a" where
  "ohd f = f 0"

definition otl :: "'a answers \<Rightarrow> 'a answers" where
  "otl f = (\<lambda>n. f (Suc n))"

text \<open>\<open>script xs d\<close> answers with the elements of \<open>xs\<close> in turn and then with \<open>d\<close> for ever.\<close>

fun script :: "'a list \<Rightarrow> 'a \<Rightarrow> 'a answers" where
  "script [] d n = d"
| "script (x # xs) d 0 = x"
| "script (x # xs) d (Suc n) = script xs d n"

text \<open>\<open>alternate a b\<close> answers \<open>a\<close>, \<open>b\<close>, \<open>a\<close>, \<open>b\<close>, and so on.\<close>

definition alternate :: "'a \<Rightarrow> 'a \<Rightarrow> 'a answers" where
  "alternate a b = (\<lambda>n. if even n then a else b)"

subsection \<open>Values\<close>

type_synonym bytes = string
type_synonym duration = int

definition second :: duration where
  "second = 1000000000"

text \<open>
  Go error values. \<open>OpError m\<close> is a \<open>*net.OpError\<close> whose inner error prints as
  \<open>m\<close>; \<open>Canceled\<close> and \<open>DeadlineExceeded\<close> are the two errors a context reports;
  every other error is \<open>Error m\<close> with its message.
\<close>

datatype error = OpError string | Error string | Canceled | DeadlineExceeded

fun message :: "error \<Rightarrow> string" where
  "message (OpError m) = m"
| "message (Error m) = m"
| "message Canceled = ''context canceled''"
| "message DeadlineExceeded = ''context deadline exceeded''"

definition ECONNREFUSED :: string where
  "ECONNREFUSED = ''connection refused''"

fun is_prefix :: "string \<Rightarrow> string \<Rightarrow> bool" where
  "is_prefix [] ys = True"
| "is_prefix (x # xs) [] = False"
| "is_prefix (x # xs) (y # ys) = (x = y \<and> is_prefix xs ys)"

text \<open>\<open>strings.Contains s sub\<close>.\<close>

fun Contains :: "string \<Rightarrow> string \<Rightarrow> bool" where
  "Contains [] sub = (sub = [])"
| "Contains (c # s) sub = (is_prefix sub (c # s) \<or> Contains s sub)"

text \<open>A call either panics or returns.\<close>

datatype 'a exit = Panic string | Return 'a

subsection \<open>The client\<close>

text \<open>
  \<open>Envs\<close> is a Go map that the code only ranges over; it is kept as the list of
  its entries in the order the range visits them. The logger is the trace.
\<close>

record Config =
  KeyPath :: string
  PublicIP :: string
  PublicDNSName :: string
  UserName :: string
  Envs :: "(string \<times> string) list"

text \<open>
  \<open>Lifetime c\<close> is the context made by \<open>context.WithCancel\<close> in \<open>Connect\<close>, with
  \<open>c\<close> telling whether it has been cancelled. The fields \<open>ctx\<close> and \<open>cancel\<close> of the
  Go struct are assigned together and nowhere else, so one field stands for both:
  \<open>None\<close> is the nil context and the nil cancel function.
\<close>

datatype lifetime = Lifetime (cancelled: bool)

datatype conn = Conn (conn_id: nat) (closed: bool)

text \<open>The client handle remembers the connection it was handshaked over.\<close>

datatype client = Client (over: nat)

record ssh =
  cfg :: Config
  key :: "bytes option"
  signer :: "bytes option"
  ctx :: "lifetime option"
  conn :: "conn option"
  cli :: "client option"
  retries :: "string \<rightharpoonup> 64 word"

text \<open>
  The options of one call, after \<open>applyOpts\<close> has been run on the defaults
  \<open>Op{verbose: true, retries: 0, retryInterval: 0, timeout: 0, envs: {}}\<close>.
\<close>

record Op =
  op_verbose :: bool
  op_retries :: "64 word"
  op_retryInterval :: duration
  op_timeout :: duration
  op_envs :: "(string \<times> string) list"

definition default_Op :: Op where
  "default_Op = \<lparr>op_verbose = True, op_retries = 0, op_retryInterval = 0,
     op_timeout = 0, op_envs = []\<rparr>"

subsection \<open>The outside world\<close>

datatype level = Info | Warn

datatype event =
    Log level string
  | Sleep duration
  | Dial string duration
  | Handshake nat
  | CancelLifetime
  | CloseConn nat
  | NewSession
  | Setenv string string
  | StartTask string
  | SessionClose
  | CancelCall
  | AwaitTask
  | LookPath string
  | Chmod string
  | Scp "string list"

text \<open>
  One execution of a remote command or of the secure-copy tool, seen from the
  caller: \<open>task_done\<close> is the time after which the task finishes by itself
  (\<open>None\<close>: it never does), with \<open>task_out\<close> and \<open>task_err\<close> as its result;
  \<open>life_cancel\<close> is the time after which somebody else cancels the client's
  lifetime (\<open>None\<close>: nobody does during this execution); \<open>ctx_wins_tie\<close> is the
  choice \<open>select\<close> makes when both channels are ready at the same time;
  \<open>killed_out\<close> and \<open>killed_err\<close> are what the secure-copy process returns when
  its context kills it. Times count from the start of the execution.
\<close>

record race =
  task_done :: "duration option"
  task_out :: "bytes option"
  task_err :: "error option"
  life_cancel :: "duration option"
  ctx_wins_tie :: bool
  killed_out :: "bytes option"
  killed_err :: error

record world =
  o_readFile :: "(error + bytes) answers"
  o_parseKey :: "error option answers"
  o_ctxDone :: "bool answers"
  o_dial :: "error option answers"
  o_handshake :: "error option answers"
  o_stat :: "bool answers"
  o_newSession :: "error option answers"
  o_setenv :: "error option answers"
  o_exec :: "race answers"
  o_lookPath :: "(error + string) answers"
  o_chmod :: "error option answers"
  o_scp :: "race answers"
  dialed :: nat
  trace :: "event list"

definition emit :: "event \<Rightarrow> world \<Rightarrow> world" where
  "emit e w = w\<lparr>trace := trace w @ [e]\<rparr>"

subsection \<open>New\<close>

definition New :: "Config \<Rightarrow> ssh" where
  "New c = \<lparr>cfg = c, key = None, signer = None, ctx = None, conn = None,
     cli = None, retries = Map.empty\<rparr>"

subsection \<open>Connect\<close>

text \<open>
  The dial loop \<open>for i := 0; i < 15; i++\<close>, by the number of iterations left.
  \<open>Inl e\<close>: the function returned \<open>e\<close> from inside the loop. \<open>Inr err\<close>: the loop
  was left, by \<open>break\<close> or by its condition, with \<open>err\<close> as the last dial error.
  \<open>DialContext\<close> assigns \<open>sh.conn\<close> on failure too (nil).
\<close>

fun dial_loop :: "nat \<Rightarrow> error option \<Rightarrow> world \<Rightarrow> ssh \<Rightarrow> world \<times> ssh \<times> (error + error option)" where
  "dial_loop 0 err w sh = (w, sh, Inr err)"
| "dial_loop (Suc n) err w sh =
    (let stopped = ohd (o_ctxDone w); w = w\<lparr>o_ctxDone := otl (o_ctxDone w)\<rparr> in
     if stopped then (w, sh\<lparr>ctx := Some (Lifetime True)\<rparr>, Inl (Error ''stopped''))
     else
       let w = emit (Dial (PublicIP (cfg sh) @ '':22'') (15 * second)) w;
           r = ohd (o_dial w); w = w\<lparr>o_dial := otl (o_dial w)\<rparr>
       in case r of
            None \<Rightarrow>
              (w\<lparr>dialed := Suc (dialed w)\<rparr>, sh\<lparr>conn := Some (Conn (dialed w) False)\<rparr>, Inr None)
          | Some e \<Rightarrow>
              let sh = sh\<lparr>conn := None\<rparr>;
                  w = (case e of
                         OpError m \<Rightarrow>
                           if Contains m ECONNREFUSED
                           then emit (Log Warn ''failed to dial (instance might not be ready yet)'') w
                           else w
                       | _ \<Rightarrow> emit (Log Warn ''failed to dial'') w);
                  w = emit (Sleep (5 * second)) w
              in dial_loop n (Some e) w sh)"

text \<open>
  The handshake over the dialed connection. On failure the code logs the mode
  of the key file, calling \<open>Mode\<close> on the result of an \<open>os.Stat\<close> whose error it
  drops: a failed stat gives a nil \<open>FileInfo\<close> and the call panics.
\<close>

definition handshake :: "world \<Rightarrow> ssh \<Rightarrow> world \<times> ssh \<times> error option exit" where
  "handshake w sh =
    (case conn sh of
       None \<Rightarrow> (w, sh, Panic ''nil connection'')
     | Some c \<Rightarrow>
        let w = emit (Handshake (conn_id c)) w;
            r = ohd (o_handshake w); w = w\<lparr>o_handshake := otl (o_handshake w)\<rparr>
        in case r of
             Some e \<Rightarrow>
               let ok = ohd (o_stat w); w = w\<lparr>o_stat := otl (o_stat w)\<rparr> in
               if ok then (emit (Log Warn ''failed to connect'') w, sh, Return (Some e))
               else (w, sh, Panic ''nil FileInfo'')
           | None \<Rightarrow>
               (emit (Log Info ''created client'') w, sh\<lparr>cli := Some (Client (conn_id c))\<rparr>, Return None))"

definition Connect :: "world \<Rightarrow> ssh \<Rightarrow> world \<times> ssh \<times> error option exit" where
  "Connect w sh =
    (let sh = sh\<lparr>ctx := Some (Lifetime False)\<rparr>;
         r = ohd (o_readFile w); w = w\<lparr>o_readFile := otl (o_readFile w)\<rparr>
     in case r of
          Inl e \<Rightarrow> (w, sh\<lparr>key := None\<rparr>, Return (Some (Error (''failed to read private key '' @ message e))))
        | Inr k \<Rightarrow>
           let sh = sh\<lparr>key := Some k\<rparr>;
               p = ohd (o_parseKey w); w = w\<lparr>o_parseKey := otl (o_parseKey w)\<rparr>
           in case p of
                Some e \<Rightarrow> (w, sh\<lparr>signer := None\<rparr>, Return (Some (Error (''failed to parse private key '' @ message e))))
              | None \<Rightarrow>
                 let sh = sh\<lparr>signer := Some k\<rparr>;
                     w = emit (Log Info ''dialing'') w
                 in case dial_loop 15 None w sh of
                      (w, sh, Inl e) \<Rightarrow> (w, sh, Return (Some e))
                    | (w, sh, Inr (Some e)) \<Rightarrow> (w, sh, Return (Some e))
                    | (w, sh, Inr None) \<Rightarrow> handshake (emit (Log Info ''dialed'') w) sh)"

subsection \<open>Close\<close>

text \<open>
  \<open>sh.cancel()\<close> on a nil function and \<open>sh.conn.Close()\<close> on a nil interface
  both panic.
\<close>

definition Close :: "world \<Rightarrow> ssh \<Rightarrow> world \<times> ssh \<times> unit exit" where
  "Close w sh =
    (case ctx sh of
       None \<Rightarrow> (w, sh, Panic ''nil cancel function'')
     | Some l \<Rightarrow>
        let w = emit CancelLifetime w; sh = sh\<lparr>ctx := Some (Lifetime True)\<rparr> in
        case conn sh of
          None \<Rightarrow> (w, sh, Panic ''nil connection'')
        | Some c \<Rightarrow>
           (emit (Log Info ''closed connection'') (emit (CloseConn (conn_id c)) w),
            sh\<lparr>conn := Some (Conn (conn_id c) True)\<rparr>, Return ()))"

subsection \<open>The retry ledger\<close>

text \<open>
  \<open>if _, ok := sh.retries[key]; !ok { sh.retries[key] = ret.retries }\<close>, the
  read \<open>sh.retries[key]\<close> (a missing key reads as zero), \<open>sh.retries[key]--\<close>
  and \<open>if err == nil { delete(sh.retries, key) }\<close>.
\<close>

definition seed :: "string \<Rightarrow> 64 word \<Rightarrow> ssh \<Rightarrow> ssh" where
  "seed k r sh = (case retries sh k of None \<Rightarrow> sh\<lparr>retries := (retries sh)(k \<mapsto> r)\<rparr> | Some v \<Rightarrow> sh)"

definition budget :: "ssh \<Rightarrow> string \<Rightarrow> 64 word" where
  "budget sh k = (case retries sh k of None \<Rightarrow> 0 | Some v \<Rightarrow> v)"

definition decrement :: "string \<Rightarrow> ssh \<Rightarrow> ssh" where
  "decrement k sh = sh\<lparr>retries := (retries sh)(k \<mapsto> budget sh k - 1)\<rparr>"

definition finish :: "string \<Rightarrow> error option \<Rightarrow> ssh \<Rightarrow> ssh" where
  "finish k err sh = (if err = None then sh\<lparr>retries := (retries sh)(k := None)\<rparr> else sh)"

subsection \<open>Contexts and select\<close>

text \<open>
  The context of one call is a child of the client's lifetime, with a deadline
  only when the timeout is not zero.
\<close>

datatype call_ctx = WithCancel lifetime | WithTimeout lifetime duration

definition call_context :: "lifetime \<Rightarrow> Op \<Rightarrow> call_ctx" where
  "call_context l ret =
    (if op_timeout ret = 0 then WithCancel l else WithTimeout l (op_timeout ret))"

text \<open>
  When the context is done, and the error it then reports, given the time
  \<open>lc\<close> at which the lifetime is cancelled from outside. A child of a
  cancelled parent is done at once; a deadline in the past is done at once.
\<close>

fun ctx_done :: "call_ctx \<Rightarrow> duration option \<Rightarrow> (duration \<times> error) option" where
  "ctx_done (WithCancel l) lc =
    (if cancelled l then Some (0, Canceled)
     else case lc of None \<Rightarrow> None | Some c \<Rightarrow> Some (c, Canceled))"
| "ctx_done (WithTimeout l d) lc =
    (if cancelled l then Some (0, Canceled)
     else case lc of
            None \<Rightarrow> Some (max 0 d, DeadlineExceeded)
          | Some c \<Rightarrow> if c \<le> max 0 d then Some (c, Canceled) else Some (max 0 d, DeadlineExceeded))"

datatype selected = Blocked | TaskFirst | CtxFirst error

text \<open>
  \<open>select { case <-ctx.Done(): ... case <-donec: ... }\<close>: the channel that is
  ready first is taken; with none ever ready the caller blocks for good.
\<close>

fun select :: "duration option \<Rightarrow> (duration \<times> error) option \<Rightarrow> bool \<Rightarrow> selected" where
  "select None None tie = Blocked"
| "select (Some t) None tie = TaskFirst"
| "select None (Some (c, e)) tie = CtxFirst e"
| "select (Some t) (Some (c, e)) tie =
    (if t < c then TaskFirst else if c < t then CtxFirst e
     else if tie then CtxFirst e else TaskFirst)"

text \<open>A lifetime seen cancelled stays cancelled in the client.\<close>

definition observe :: "error \<Rightarrow> ssh \<Rightarrow> ssh" where
  "observe e sh = (if e = Canceled then sh\<lparr>ctx := Some (Lifetime True)\<rparr> else sh)"

subsection \<open>Run\<close>

fun setenvs :: "(string \<times> string) list \<Rightarrow> world \<Rightarrow> world \<times> error option" where
  "setenvs [] w = (w, None)"
| "setenvs ((k, v) # kvs) w =
    (let w = emit (Setenv k v) w;
         r = ohd (o_setenv w); w = w\<lparr>o_setenv := otl (o_setenv w)\<rparr>
     in case r of Some e \<Rightarrow> (w, Some e) | None \<Rightarrow> setenvs kvs w)"

text \<open>
  One pass through the body of a call up to its failure protocol:
  \<open>Returned\<close> is a \<open>return\<close> statement reached on the way, \<open>Finished\<close> the
  values of \<open>out\<close> and \<open>err\<close> when the failure protocol is reached.
\<close>

datatype attempt = Panicked string | Returned "bytes option" "error option"
  | Finished "bytes option" "error option"

text \<open>
  Lines 193 to 216 of \<open>Run\<close>: a new session on the client handle (a nil
  handle panics), then the client's environment and the call's. \<open>Return (Some e)\<close>
  is the statement \<open>return nil, err\<close>.
\<close>

definition open_session :: "world \<Rightarrow> ssh \<Rightarrow> Op \<Rightarrow> world \<times> error option exit" where
  "open_session w sh ret =
    (case cli sh of
       None \<Rightarrow> (w, Panic ''nil client'')
     | Some c \<Rightarrow>
        let w = emit NewSession w;
            r = ohd (o_newSession w); w = w\<lparr>o_newSession := otl (o_newSession w)\<rparr>
        in case r of
             Some e \<Rightarrow> (w, Return (Some e))
           | None \<Rightarrow>
              let w = emit (Log Info ''created client session, running command'') w in
              case setenvs (Envs (cfg sh)) w of
                (w, Some e) \<Rightarrow> (w, Return (Some e))
              | (w, None) \<Rightarrow>
                 (case setenvs (op_envs ret) w of
                    (w, Some e) \<Rightarrow> (w, Return (Some e))
                  | (w, None) \<Rightarrow> (w, Return None)))"

text \<open>
  Lines 218 to 247 of \<open>Run\<close>: the call's context, the command on a background
  task, the \<open>select\<close>, the verbose log line. \<open>None\<close>: the \<open>select\<close> blocks for
  good. Closing the session ends the background task, so the wait \<open><-donec\<close>
  after it returns.
\<close>

definition execute :: "world \<Rightarrow> ssh \<Rightarrow> string \<Rightarrow> Op \<Rightarrow> (world \<times> ssh \<times> attempt) option" where
  "execute w sh cmd ret =
    (case ctx sh of
       None \<Rightarrow> Some (w, sh, Panicked ''nil parent context'')
     | Some l \<Rightarrow>
        let cx = call_context l ret;
            w = emit (StartTask cmd) w;
            r = ohd (o_exec w); w = w\<lparr>o_exec := otl (o_exec w)\<rparr>
        in case select (task_done r) (ctx_done cx (life_cancel r)) (ctx_wins_tie r) of
             Blocked \<Rightarrow> None
           | CtxFirst e \<Rightarrow>
              let w = emit AwaitTask (emit CancelCall (emit SessionClose w));
                  w = (if op_verbose ret then emit (Log Info ''ran command'') w else w)
              in Some (w, observe e sh, Finished None (Some e))
           | TaskFirst \<Rightarrow>
              let w = emit CancelCall (emit SessionClose w);
                  w = (if op_verbose ret then emit (Log Info ''ran command'') w else w)
              in Some (w, sh, Finished (task_out r) (task_err r)))"

definition run_attempt :: "world \<Rightarrow> ssh \<Rightarrow> string \<Rightarrow> Op \<Rightarrow> (world \<times> ssh \<times> attempt) option" where
  "run_attempt w sh cmd ret =
    (case open_session w sh ret of
       (w, Panic p) \<Rightarrow> Some (w, sh, Panicked p)
     | (w, Return (Some e)) \<Rightarrow> Some (w, sh, Returned None (Some e))
     | (w, Return None) \<Rightarrow> execute w sh cmd ret)"

subsection \<open>The failure protocol\<close>

text \<open>
  \<open>for connErr != nil { sh.retries[key]--; connErr = sh.Connect() }\<close>, entered
  with a non-nil \<open>connErr\<close>. The loop has no bound.
\<close>

partial_function (option) reconnect :: "world \<Rightarrow> ssh \<Rightarrow> string \<Rightarrow> (world \<times> ssh \<times> unit exit) option" where
  "reconnect w sh k =
    (case Connect w (decrement k sh) of
       (w, sh, Panic p) \<Rightarrow> Some (w, sh, Panic p)
     | (w, sh, Return None) \<Rightarrow> Some (w, sh, Return ())
     | (w, sh, Return (Some e)) \<Rightarrow> reconnect w sh k)"

text \<open>
  What the three operations do between deciding to retry and calling
  themselves again: log, \<open>Close\<close>, reconnect, sleep for the retry interval.
\<close>

definition recover :: "world \<Rightarrow> ssh \<Rightarrow> string \<Rightarrow> Op \<Rightarrow> (world \<times> ssh \<times> unit exit) option" where
  "recover w sh k ret =
    (case Close (emit (Log Warn ''retrying'') w) sh of
       (w, sh, Panic p) \<Rightarrow> Some (w, sh, Panic p)
     | (w, sh, Return u) \<Rightarrow>
        (case reconnect w sh k of
           None \<Rightarrow> None
         | Some (w, sh, Panic p) \<Rightarrow> Some (w, sh, Panic p)
         | Some (w, sh, Return u) \<Rightarrow> Some (emit (Sleep (op_retryInterval ret)) w, sh, Return ())))"

type_synonym outcome = "(bytes option \<times> error option) exit"

text \<open>
  The end of a call that has called itself again: \<open>out, err = sh.Run(...)\<close>
  and then \<open>if err == nil { delete(sh.retries, key) }\<close>. A panic of the inner
  call unwinds through the outer one.
\<close>

definition conclude :: "string \<Rightarrow> world \<times> ssh \<times> outcome \<Rightarrow> world \<times> ssh \<times> outcome" where
  "conclude k r =
    (case r of
       (w, sh, Panic p) \<Rightarrow> (w, sh, Panic p)
     | (w, sh, Return (out, err)) \<Rightarrow> (w, finish k err sh, Return (out, err)))"

partial_function (option) Run :: "world \<Rightarrow> ssh \<Rightarrow> string \<Rightarrow> Op \<Rightarrow> (world \<times> ssh \<times> outcome) option" where
  "Run w sh cmd ret =
    (let k = PublicDNSName (cfg sh) @ cmd; sh = seed k (op_retries ret) sh in
     case run_attempt w sh cmd ret of
       None \<Rightarrow> None
     | Some (w, sh, Panicked p) \<Rightarrow> Some (w, sh, Panic p)
     | Some (w, sh, Returned out err) \<Rightarrow> Some (w, sh, Return (out, err))
     | Some (w, sh, Finished out err) \<Rightarrow>
        (case err of
           None \<Rightarrow> Some (w, finish k None sh, Return (out, None))
         | Some e \<Rightarrow>
            let w = emit (Log Warn ''command failed'') w in
            if budget sh k \<noteq> 0 then
              (case recover w sh k ret of
                 None \<Rightarrow> None
               | Some (w, sh, Panic p) \<Rightarrow> Some (w, sh, Panic p)
               | Some (w, sh, Return u) \<Rightarrow>
                  Option.bind (Run w sh cmd ret) (\<lambda>r. Some (conclude k r)))
            else Some (w, finish k (Some e) sh, Return (out, Some e))))"

text \<open>
  The text the three operations share after their attempt (lines 249 to 266 of
  \<open>Run\<close>), with the call of the operation to itself as the parameter \<open>again\<close>.
  \<open>Run\<close> above and \<open>transfer\<close> below are this text around their own attempt.
\<close>

definition failure_protocol :: "(world \<Rightarrow> ssh \<Rightarrow> (world \<times> ssh \<times> outcome) option) \<Rightarrow> string \<Rightarrow> Op \<Rightarrow>
    (world \<times> ssh \<times> attempt) option \<Rightarrow> (world \<times> ssh \<times> outcome) option" where
  "failure_protocol again k ret a =
    (case a of
       None \<Rightarrow> None
     | Some (w, sh, Panicked p) \<Rightarrow> Some (w, sh, Panic p)
     | Some (w, sh, Returned out err) \<Rightarrow> Some (w, sh, Return (out, err))
     | Some (w, sh, Finished out err) \<Rightarrow>
        (case err of
           None \<Rightarrow> Some (w, finish k None sh, Return (out, None))
         | Some e \<Rightarrow>
            let w = emit (Log Warn ''command failed'') w in
            if budget sh k \<noteq> 0 then
              (case recover w sh k ret of
                 None \<Rightarrow> None
               | Some (w, sh, Panic p) \<Rightarrow> Some (w, sh, Panic p)
               | Some (w, sh, Return u) \<Rightarrow>
                  Option.bind (again w sh) (\<lambda>r. Some (conclude k r)))
            else Some (w, finish k (Some e) sh, Return (out, Some e))))"

subsection \<open>Send and Download\<close>

text \<open>
  \<open>Send\<close> and \<open>Download\<close> are the same text but for the order of the two path
  arguments of the tool and the wording of the log lines; both build their
  ledger key from the local path. One function, with the direction as a
  parameter, stands for the two.
\<close>

datatype direction = Sending | Downloading

definition scp_args :: "direction \<Rightarrow> ssh \<Rightarrow> string \<Rightarrow> string \<Rightarrow> string \<Rightarrow> string list" where
  "scp_args dir sh scpPath localPath remotePath =
    (let remote = UserName (cfg sh) @ ''@'' @ PublicDNSName (cfg sh) @ '':'' @ remotePath in
     [scpPath, ''-oStrictHostKeyChecking=no'', ''-i'', KeyPath (cfg sh)] @
     (case dir of Sending \<Rightarrow> [localPath, remote] | Downloading \<Rightarrow> [remote, localPath]))"

text \<open>The verbose report after the tool has run: \<open>os.Stat(localPath)\<close> picks the line.\<close>

definition scp_log :: "direction \<Rightarrow> Op \<Rightarrow> world \<Rightarrow> world" where
  "scp_log dir ret w =
    (if op_verbose ret then
       let ok = ohd (o_stat w); w = w\<lparr>o_stat := otl (o_stat w)\<rparr> in
       emit (Log Info (case dir of
                         Sending \<Rightarrow> if ok then ''sent'' else ''failed to send''
                       | Downloading \<Rightarrow> if ok then ''downloaded'' else ''failed to download'')) w
     else w)"

text \<open>
  Lines 315 to 325 of \<open>Send\<close> (394 to 404 of \<open>Download\<close>): the tool is looked
  up in the search path and the key file is made owner-read-only. \<open>Inl e\<close> is the
  statement \<open>cancel(); return nil, err\<close>.
\<close>

definition scp_prepare :: "world \<Rightarrow> ssh \<Rightarrow> world \<times> (error + string)" where
  "scp_prepare w sh =
    (let w = emit (LookPath ''scp'') w;
         r = ohd (o_lookPath w); w = w\<lparr>o_lookPath := otl (o_lookPath w)\<rparr>
     in case r of
          Inl e \<Rightarrow> (emit CancelCall w, Inl e)
        | Inr scpPath \<Rightarrow>
           let w = emit (Chmod (KeyPath (cfg sh))) w;
               c = ohd (o_chmod w); w = w\<lparr>o_chmod := otl (o_chmod w)\<rparr>
           in case c of
                Some e \<Rightarrow> (emit CancelCall w, Inl e)
              | None \<Rightarrow> (w, Inr scpPath))"

text \<open>
  Lines 327 to 352 of \<open>Send\<close> (405 to 430 of \<open>Download\<close>). The tool runs under
  the call's context: when the context is done first the process is killed and
  \<open>CombinedOutput\<close> returns what the killed process gives.
\<close>

definition scp_execute :: "direction \<Rightarrow> world \<Rightarrow> ssh \<Rightarrow> call_ctx \<Rightarrow> string list \<Rightarrow> Op \<Rightarrow> (world \<times> ssh \<times> attempt) option" where
  "scp_execute dir w sh cx args ret =
    (let w = emit (Scp args) w;
         r = ohd (o_scp w); w = w\<lparr>o_scp := otl (o_scp w)\<rparr>
     in case select (task_done r) (ctx_done cx (life_cancel r)) (ctx_wins_tie r) of
          Blocked \<Rightarrow> None
        | TaskFirst \<Rightarrow>
           Some (scp_log dir ret (emit CancelCall w), sh, Finished (task_out r) (task_err r))
        | CtxFirst e \<Rightarrow>
           Some (scp_log dir ret (emit CancelCall w), observe e sh,
                 Finished (killed_out r) (Some (killed_err r))))"

text \<open>
  Lines 305 to 352 of \<open>Send\<close> (384 to 430 of \<open>Download\<close>). Deriving the call's
  context from a nil lifetime panics.
\<close>

definition scp_attempt :: "direction \<Rightarrow> world \<Rightarrow> ssh \<Rightarrow> string \<Rightarrow> string \<Rightarrow> Op \<Rightarrow> (world \<times> ssh \<times> attempt) option" where
  "scp_attempt dir w sh localPath remotePath ret =
    (case ctx sh of
       None \<Rightarrow> Some (w, sh, Panicked ''nil parent context'')
     | Some l \<Rightarrow>
        (case scp_prepare w sh of
           (w, Inl e) \<Rightarrow> Some (w, sh, Returned None (Some e))
         | (w, Inr scpPath) \<Rightarrow>
            scp_execute dir w sh (call_context l ret)
              (scp_args dir sh scpPath localPath remotePath) ret))"

partial_function (option) transfer :: "direction \<Rightarrow> world \<Rightarrow> ssh \<Rightarrow> string \<Rightarrow> string \<Rightarrow> Op \<Rightarrow> (world \<times> ssh \<times> outcome) option" where
  "transfer dir w sh localPath remotePath ret =
    (let k = PublicDNSName (cfg sh) @ localPath; sh = seed k (op_retries ret) sh in
     case scp_attempt dir w sh localPath remotePath ret of
       None \<Rightarrow> None
     | Some (w, sh, Panicked p) \<Rightarrow> Some (w, sh, Panic p)
     | Some (w, sh, Returned out err) \<Rightarrow> Some (w, sh, Return (out, err))
     | Some (w, sh, Finished out err) \<Rightarrow>
        (case err of
           None \<Rightarrow> Some (w, finish k None sh, Return (out, None))
         | Some e \<Rightarrow>
            let w = emit (Log Warn ''command failed'') w in
            if budget sh k \<noteq> 0 then
              (case recover w sh k ret of
                 None \<Rightarrow> None
               | Some (w, sh, Panic p) \<Rightarrow> Some (w, sh, Panic p)
               | Some (w, sh, Return u) \<Rightarrow>
                  Option.bind (transfer dir w sh localPath remotePath ret) (\<lambda>r. Some (conclude k r)))
            else Some (w, finish k (Some e) sh, Return (out, Some e))))"

declare reconnect.simps [code]
declare Run.simps [code]
declare transfer.simps [code]

definition Send :: "world \<Rightarrow> ssh \<Rightarrow> string \<Rightarrow> string \<Rightarrow> Op \<Rightarrow> (world \<times> ssh \<times> outcome) option" where
  "Send w sh localPath remotePath ret = transfer Sending w sh localPath remotePath ret"

definition Download :: "world \<Rightarrow> ssh \<Rightarrow> string \<Rightarrow> string \<Rightarrow> Op \<Rightarrow> (world \<times> ssh \<times> outcome) option" where
  "Download w sh remotePath localPath ret = transfer Downloading w sh localPath remotePath ret"

subsection \<open>Reading a client and a trace\<close>

text \<open>
  The channel of a client is absent when it stores neither a connection nor a
  client handle, and established when it stores an open connection and a
  client handle handshaked over that connection.
\<close>

definition absent :: "ssh \<Rightarrow> bool" where
  "absent sh = (conn sh = None \<and> cli sh = None)"

definition established :: "ssh \<Rightarrow> bool" where
  "established sh =
    (case conn sh of
       None \<Rightarrow> False
     | Some c \<Rightarrow> (case cli sh of None \<Rightarrow> False | Some h \<Rightarrow> \<not> closed c \<and> over h = conn_id c))"

text \<open>The time slept, the timeouts of the dial attempts, and the reconnect activity in a trace.\<close>

fun slept :: "event list \<Rightarrow> duration" where
  "slept [] = 0"
| "slept (Sleep d # es) = d + slept es"
| "slept (e # es) = slept es"

fun dial_timeouts :: "event list \<Rightarrow> duration list" where
  "dial_timeouts [] = []"
| "dial_timeouts (Dial a d # es) = d # dial_timeouts es"
| "dial_timeouts (e # es) = dial_timeouts es"

fun reconnects :: "event list \<Rightarrow> event list" where
  "reconnects [] = []"
| "reconnects (CancelLifetime # es) = CancelLifetime # reconnects es"
| "reconnects (CloseConn n # es) = CloseConn n # reconnects es"
| "reconnects (Dial a d # es) = Dial a d # reconnects es"
| "reconnects (Handshake n # es) = Handshake n # reconnects es"
| "reconnects (e # es) = reconnects es"

subsection \<open>Sample hosts\<close>

definition host :: Config where
  "host = \<lparr>KeyPath = ''id_rsa'', PublicIP = ''10.0.0.7'', PublicDNSName = ''ec2.test'',
     UserName = ''ec2-user'', Envs = []\<rparr>"

text \<open>A task that prints \<open>hi\<close> after one second, and one that fails after one second.\<close>

definition prints_hi :: race where
  "prints_hi = \<lparr>task_done = Some second, task_out = Some ''hi'', task_err = None,
     life_cancel = None, ctx_wins_tie = False, killed_out = None,
     killed_err = Error ''signal: killed''\<rparr>"

definition breaks :: race where
  "breaks = \<lparr>task_done = Some second, task_out = Some [], task_err = Some (Error ''exit status 1''),
     life_cancel = None, ctx_wins_tie = False, killed_out = None,
     killed_err = Error ''signal: killed''\<rparr>"

text \<open>A task that never ends by itself.\<close>

definition hangs :: race where
  "hangs = \<lparr>task_done = None, task_out = None, task_err = None,
     life_cancel = None, ctx_wins_tie = False, killed_out = None,
     killed_err = Error ''signal: killed''\<rparr>"

text \<open>A world in which every external call succeeds.\<close>

definition calm :: world where
  "calm = \<lparr>o_readFile = script [] (Inr ''PRIVATE KEY''), o_parseKey = script [] None,
     o_ctxDone = script [] False, o_dial = script [] None, o_handshake = script [] None,
     o_stat = script [] True, o_newSession = script [] None, o_setenv = script [] None,
     o_exec = script [] prints_hi, o_lookPath = script [] (Inr ''/usr/bin/scp''),
     o_chmod = script [] None, o_scp = script [] prints_hi, dialed = 1, trace = []\<rparr>"

text \<open>The client as a first successful \<open>Connect\<close> leaves it.\<close>

definition connected :: ssh where
  "connected = \<lparr>cfg = host, key = Some ''PRIVATE KEY'', signer = Some ''PRIVATE KEY'',
     ctx = Some (Lifetime False), conn = Some (Conn 0 False), cli = Some (Client 0),
     retries = Map.empty\<rparr>"

definition refused :: error where
  "refused = OpError ''connect: connection refused''"

text \<open>A remote host whose first command breaks and whose later commands print \<open>hi\<close>.\<close>

definition flaky :: world where
  "flaky = calm\<lparr>o_exec := script [breaks] prints_hi\<rparr>"

subsection \<open>Reading the result of a call\<close>

text \<open>
  What a call returned, the ledger entry of a key after it, and the trace after
  it; \<open>None\<close> when the call never returns.
\<close>

definition returned :: "(world \<times> ssh \<times> outcome) option \<Rightarrow> outcome option" where
  "returned r = (case r of None \<Rightarrow> None | Some (w, sh, x) \<Rightarrow> Some x)"

definition ledger_after :: "(world \<times> ssh \<times> outcome) option \<Rightarrow> string \<Rightarrow> 64 word option option" where
  "ledger_after r k = (case r of None \<Rightarrow> None | Some (w, sh, x) \<Rightarrow> Some (retries sh k))"

definition trace_after :: "(world \<times> ssh \<times> outcome) option \<Rightarrow> event list option" where
  "trace_after r = (case r of None \<Rightarrow> None | Some (w, sh, x) \<Rightarrow> Some (trace w))"

subsection \<open>More sample hosts\<close>

text \<open>A host on which every command and every transfer fails.\<close>

definition broken :: world where
  "broken = calm\<lparr>o_exec := script [] breaks, o_scp := script [] breaks\<rparr>"

text \<open>A machine without the secure-copy tool.\<close>

definition notool :: world where
  "notool = calm\<lparr>o_lookPath := script [] (Inl (Error ''exec: scp: executable file not found''))\<rparr>"

text \<open>A client whose ledger still holds zero entries of earlier calls.\<close>

definition stale :: ssh where
  "stale = connected\<lparr>retries := [''ec2.testfalse'' \<mapsto> 0, ''ec2.testa.txt'' \<mapsto> 0]\<rparr>"

text \<open>A host whose first command never ends and whose later commands print \<open>hi\<close>.\<close>

definition stuck_once :: world where
  "stuck_once = calm\<lparr>o_exec := script [hangs] prints_hi\<rparr>"

text \<open>A host on which no command ever ends.\<close>

definition stuck :: world where
  "stuck = calm\<lparr>o_exec := script [] hangs, o_scp := script [] hangs\<rparr>"

text \<open>A host that refuses three dials and whose handshake then fails; a host whose handshake fails.\<close>

definition refusing :: world where
  "refusing = calm\<lparr>o_dial := script [Some refused, Some refused, Some refused] None\<rparr>"

definition rejecting :: world where
  "rejecting = calm\<lparr>o_handshake := script [Some (Error ''ssh: handshake failed'')] None\<rparr>"

definition refusing_rejecting :: world where
  "refusing_rejecting = refusing\<lparr>o_handshake := script [Some (Error ''ssh: handshake failed'')] None\<rparr>"

text \<open>
  A host on which every command fails and every other handshake fails: each
  reconnect needs two calls of \<open>Connect\<close>.
\<close>

definition treadmill :: world where
  "treadmill = calm\<lparr>o_exec := script [] breaks,
     o_handshake := alternate (Some (Error ''ssh: handshake failed'')) None\<rparr>"

text \<open>How an attempt ended.\<close>

definition attempted :: "(world \<times> ssh \<times> attempt) option \<Rightarrow> attempt option" where
  "attempted r = (case r of None \<Rightarrow> None | Some (w, sh, a) \<Rightarrow> Some a)"

text \<open>A host that refuses every dial.\<close>

definition unreachable :: world where
  "unreachable = calm\<lparr>o_dial := script [] (Some refused)\<rparr>"

subsection \<open>Hosts that can be relied on\<close>

text \<open>
  A world is dependable when the key file can always be read and parsed, nobody
  cancels the lifetime during a dial loop, every dial and every handshake
  succeeds, and every command and every transfer ends by itself.
\<close>

definition always :: "('a \<Rightarrow> bool) \<Rightarrow> 'a answers \<Rightarrow> bool" where
  "always P f = (\<forall>n. P (f n))"

definition dependable :: "world \<Rightarrow> bool" where
  "dependable w =
    (always (\<lambda>r. \<not> isl r) (o_readFile w) \<and> always (\<lambda>e. e = None) (o_parseKey w) \<and>
     always (\<lambda>b. \<not> b) (o_ctxDone w) \<and> always (\<lambda>e. e = None) (o_dial w) \<and>
     always (\<lambda>e. e = None) (o_handshake w) \<and>
     always (\<lambda>r. task_done r \<noteq> None) (o_exec w) \<and> always (\<lambda>r. task_done r \<noteq> None) (o_scp w))"

text \<open>
  A world treads the mill when it answers as \<open>treadmill\<close> does, whatever it has
  dialed and traced so far; a client is on the mill when it is connected to
  \<open>host\<close> and, once seeded with one retry, holds an odd budget for the command
  \<open>false\<close>.
\<close>

definition treads :: "world \<Rightarrow> bool" where
  "treads w =
    (o_readFile w = o_readFile treadmill \<and> o_parseKey w = o_parseKey treadmill \<and>
     o_ctxDone w = o_ctxDone treadmill \<and> o_dial w = o_dial treadmill \<and>
     o_handshake w = o_handshake treadmill \<and> o_stat w = o_stat treadmill \<and>
     o_newSession w = o_newSession treadmill \<and> o_exec w = o_exec treadmill)"

definition on_mill :: "ssh \<Rightarrow> bool" where
  "on_mill sh =
    (cfg sh = host \<and> ctx sh = Some (Lifetime False) \<and> conn sh \<noteq> None \<and> cli sh \<noteq> None \<and>
     odd (budget (seed ''ec2.testfalse'' 1 sh) ''ec2.testfalse''))"

text \<open>
  A host on which every command fails and every handshake is refused; a world
  is shut out when it answers a \<open>Connect\<close> as this host does.
\<close>

definition shut_out :: world where
  "shut_out = calm\<lparr>o_exec := script [] breaks,
     o_handshake := script [] (Some (Error ''ssh: handshake failed''))\<rparr>"

definition shut :: "world \<Rightarrow> bool" where
  "shut w =
    (o_readFile w = o_readFile shut_out \<and> o_parseKey w = o_parseKey shut_out \<and>
     o_ctxDone w = o_ctxDone shut_out \<and> o_dial w = o_dial shut_out \<and>
     o_handshake w = o_handshake shut_out \<and> o_stat w = o_stat shut_out)"

section \<open>Properties\<close>

subsection \<open>Oracles\<close>

lemma ohd_script [simp]: "ohd (script [] d) = d" "ohd (script (x # xs) d) = x"
  by (simp_all add: ohd_def)

lemma otl_script [simp]: "otl (script [] d) = script [] d" "otl (script (x # xs) d) = script xs d"
  by (simp_all add: otl_def fun_eq_iff)

lemma ohd_alternate [simp]: "ohd (alternate a b) = a"
  by (simp add: ohd_def alternate_def)

lemma otl_alternate [simp]: "otl (alternate a b) = alternate b a"
  by (simp add: otl_def alternate_def fun_eq_iff)

lemma otl_apply: "otl f n = f (Suc n)"
  by (simp add: otl_def)

lemmas attempt_defs = run_attempt_def open_session_def execute_def scp_attempt_def
  scp_prepare_def scp_execute_def scp_log_def scp_args_def call_context_def observe_def
  seed_def budget_def finish_def emit_def Let_def

subsection \<open>What Connect, Close and the reconnect loop keep\<close>

lemma dial_loop_keeps:
  "dial_loop n err w sh = (w', sh', r) \<Longrightarrow>
     cfg sh' = cfg sh \<and> retries sh' = retries sh \<and> cli sh' = cli sh"
proof (induction n arbitrary: err w sh)
  case 0
  then show ?case by simp
next
  case (Suc n)
  show ?case
  proof (cases "ohd (o_ctxDone w)")
    case True
    with Suc.prems show ?thesis by (auto simp: Let_def)
  next
    case False
    show ?thesis
    proof (cases "ohd (o_dial (emit (Dial (PublicIP (cfg sh) @ '':22'') (15 * second)) (w\<lparr>o_ctxDone := otl (o_ctxDone w)\<rparr>)))")
      case None
      with False Suc.prems show ?thesis by (auto simp: Let_def)
    next
      case (Some e)
      with False Suc.prems Suc.IH show ?thesis by (fastforce simp: Let_def)
    qed
  qed
qed

lemma handshake_keeps:
  "handshake w sh = (w', sh', r) \<Longrightarrow> cfg sh' = cfg sh \<and> retries sh' = retries sh"
  by (auto simp: handshake_def Let_def split: option.splits if_splits)

lemma Connect_keeps:
  "Connect w sh = (w', sh', r) \<Longrightarrow> cfg sh' = cfg sh \<and> retries sh' = retries sh"
  by (auto simp: Connect_def Let_def split: sum.splits option.splits prod.splits
      dest!: dial_loop_keeps handshake_keeps)

lemma Close_keeps:
  "Close w sh = (w', sh', r) \<Longrightarrow> cfg sh' = cfg sh \<and> retries sh' = retries sh"
  by (auto simp: Close_def Let_def split: option.splits)

lemma reconnect_keeps:
  assumes "reconnect w0 sh0 k0 = Some y0"
  shows "cfg (fst (snd y0)) = cfg sh0 \<and>
     (retries sh0 k0 \<noteq> None \<longrightarrow> retries (fst (snd y0)) k0 \<noteq> None)"
proof (rule reconnect.raw_induct[where P = "\<lambda>w sh k y. cfg (fst (snd y)) = cfg sh \<and>
     (retries sh k \<noteq> None \<longrightarrow> retries (fst (snd y)) k \<noteq> None)", OF _ assms], goal_cases)
  case (1 f w sh k y)
  obtain w1 sh1 r1 where c: "Connect w (decrement k sh) = (w1, sh1, r1)"
    by (cases "Connect w (decrement k sh)") auto
  from Connect_keeps[OF c] have k1: "cfg sh1 = cfg sh" "retries sh1 k \<noteq> None"
    by (auto simp: decrement_def)
  show ?case
  proof (cases r1)
    case (Panic p)
    with 1(2) c k1 show ?thesis by auto
  next
    case (Return e)
    show ?thesis
    proof (cases e)
      case None
      with Return 1(2) c k1 show ?thesis by auto
    next
      case (Some a)
      with Return 1(2) c have "f w1 sh1 k = Some y" by simp
      from 1(1)[OF this] k1 show ?thesis by simp
    qed
  qed
qed

lemma recover_keeps:
  assumes "recover w sh k ret = Some (w', sh', Return u)"
  shows "cfg sh' = cfg sh" "retries sh k \<noteq> None \<Longrightarrow> retries sh' k \<noteq> None"
proof -
  obtain w1 sh1 r1 where c: "Close (emit (Log Warn ''retrying'') w) sh = (w1, sh1, r1)"
    by (cases "Close (emit (Log Warn ''retrying'') w) sh") auto
  from Close_keeps[OF c] have k1: "cfg sh1 = cfg sh" "retries sh1 = retries sh" by auto
  from assms c obtain w2 where "reconnect w1 sh1 k = Some (w2, sh', Return ())"
    by (auto simp: recover_def split: exit.splits option.splits prod.splits)
  from reconnect_keeps[OF this] k1
  show "cfg sh' = cfg sh" "retries sh k \<noteq> None \<Longrightarrow> retries sh' k \<noteq> None" by auto
qed

subsection \<open>A connect that succeeds at once\<close>

lemma dial_loop_first:
  "0 < n \<Longrightarrow> \<not> ohd (o_ctxDone w) \<Longrightarrow> ohd (o_dial w) = None \<Longrightarrow>
   dial_loop n err w sh =
     (w\<lparr>o_ctxDone := otl (o_ctxDone w), o_dial := otl (o_dial w), dialed := Suc (dialed w),
         trace := trace w @ [Dial (PublicIP (cfg sh) @ '':22'') (15 * second)]\<rparr>,
      sh\<lparr>conn := Some (Conn (dialed w) False)\<rparr>, Inr None)"
  by (cases n) (simp_all add: Let_def emit_def)

lemma Connect_first:
  assumes "ohd (o_readFile w) = Inr k" "ohd (o_parseKey w) = None" "\<not> ohd (o_ctxDone w)"
    "ohd (o_dial w) = None" "ohd (o_handshake w) = None"
  shows "Connect w sh =
     (w\<lparr>o_readFile := otl (o_readFile w), o_parseKey := otl (o_parseKey w),
         o_ctxDone := otl (o_ctxDone w), o_dial := otl (o_dial w),
         o_handshake := otl (o_handshake w), dialed := Suc (dialed w),
         trace := trace w @ [Log Info ''dialing'', Dial (PublicIP (cfg sh) @ '':22'') (15 * second),
           Log Info ''dialed'', Handshake (dialed w), Log Info ''created client'']\<rparr>,
      sh\<lparr>key := Some k, signer := Some k, ctx := Some (Lifetime False),
         conn := Some (Conn (dialed w) False), cli := Some (Client (dialed w))\<rparr>, Return None)"
  using assms by (simp add: Connect_def Let_def emit_def dial_loop_first handshake_def)

lemma reconnect_first:
  assumes "ohd (o_readFile w) = Inr kb" "ohd (o_parseKey w) = None" "\<not> ohd (o_ctxDone w)"
    "ohd (o_dial w) = None" "ohd (o_handshake w) = None"
  shows "reconnect w sh k =
     Some (w\<lparr>o_readFile := otl (o_readFile w), o_parseKey := otl (o_parseKey w),
         o_ctxDone := otl (o_ctxDone w), o_dial := otl (o_dial w),
         o_handshake := otl (o_handshake w), dialed := Suc (dialed w),
         trace := trace w @ [Log Info ''dialing'', Dial (PublicIP (cfg sh) @ '':22'') (15 * second),
           Log Info ''dialed'', Handshake (dialed w), Log Info ''created client'']\<rparr>,
      sh\<lparr>key := Some kb, signer := Some kb, ctx := Some (Lifetime False),
         conn := Some (Conn (dialed w) False), cli := Some (Client (dialed w)),
         retries := (retries sh)(k \<mapsto> budget sh k - 1)\<rparr>, Return ())"
  apply (subst reconnect.simps)
  apply (simp add: Connect_first[OF assms] decrement_def)
  done

subsection \<open>A successful call clears its ledger entry\<close>

lemma conclude_success:
  "conclude k r = (w', sh', Return (out, None)) \<Longrightarrow> retries sh' k = None"
  by (auto simp: conclude_def finish_def split: prod.splits exit.splits)

lemma run_attempt_Returned:
  "run_attempt w sh cmd ret = Some (w1, sh1, Returned out err) \<Longrightarrow> err \<noteq> None"
  by (auto simp: run_attempt_def execute_def Let_def
      split: prod.splits exit.splits option.splits selected.splits)

lemma scp_attempt_Returned:
  "scp_attempt dir w sh lp rp ret = Some (w1, sh1, Returned out err) \<Longrightarrow> err \<noteq> None"
  by (auto simp: scp_attempt_def scp_execute_def Let_def
      split: prod.splits sum.splits option.splits selected.splits)

lemma Run_success:
  assumes "Run w sh cmd ret = Some (w', sh', Return (out, None))"
  shows "retries sh' (PublicDNSName (cfg sh) @ cmd) = None"
  using assms
  apply (subst (asm) Run.simps)
  apply (auto simp: Let_def finish_def split: option.splits prod.splits attempt.splits if_splits exit.splits
        Option.bind_splits dest: run_attempt_Returned conclude_success)
  done

lemma transfer_success:
  assumes "transfer dir w sh lp rp ret = Some (w', sh', Return (out, None))"
  shows "retries sh' (PublicDNSName (cfg sh) @ lp) = None"
  using assms
  apply (subst (asm) transfer.simps)
  apply (auto simp: Let_def finish_def split: option.splits prod.splits attempt.splits if_splits exit.splits
        Option.bind_splits dest: scp_attempt_Returned conclude_success)
  done

text \<open>
  Claim C5. Whenever \<open>Run\<close>, \<open>Send\<close> or \<open>Download\<close> returns with a nil error, on
  the first attempt or after retries, the retry ledger has no entry for the key
  of that call (the DNS name followed by the command, or by the local path)
  when the call returns.
\<close>

theorem success_leaves_no_ledger_entry:
  "(Run w sh cmd ret = Some (w', sh', Return (out, None)) \<longrightarrow>
      retries sh' (PublicDNSName (cfg sh) @ cmd) = None) \<and>
   (Send w sh localPath remotePath ret = Some (w', sh', Return (out, None)) \<longrightarrow>
      retries sh' (PublicDNSName (cfg sh) @ localPath) = None) \<and>
   (Download w sh remotePath localPath ret = Some (w', sh', Return (out, None)) \<longrightarrow>
      retries sh' (PublicDNSName (cfg sh) @ localPath) = None)"
  by (auto simp: Send_def Download_def dest: Run_success transfer_success)

theorem success_leaves_no_ledger_entry_witness:
  "returned (Run flaky connected ''echo hi'' (default_Op\<lparr>op_retries := 2\<rparr>))
     = Some (Return (Some ''hi'', None)) \<and>
   ledger_after (Run flaky connected ''echo hi'' (default_Op\<lparr>op_retries := 2\<rparr>)) ''ec2.testecho hi''
     = Some None \<and>
   returned (Send flaky connected ''a.txt'' ''/tmp/a.txt'' default_Op) = Some (Return (Some ''hi'', None)) \<and>
   ledger_after (Send flaky connected ''a.txt'' ''/tmp/a.txt'' default_Op) ''ec2.testa.txt'' = Some None \<and>
   returned (Download flaky connected ''/tmp/a.txt'' ''a.txt'' default_Op) = Some (Return (Some ''hi'', None)) \<and>
   ledger_after (Download flaky connected ''/tmp/a.txt'' ''a.txt'' default_Op) ''ec2.testa.txt'' = Some None"
proof -
  have r: "returned (Run flaky connected ''echo hi'' (default_Op\<lparr>op_retries := 2\<rparr>))
     = Some (Return (Some ''hi'', None))"
    apply (subst Run.simps)
    apply (simp add: attempt_defs flaky_def calm_def connected_def host_def default_Op_def
        prints_hi_def breaks_def second_def recover_def Close_def reconnect_first)
    apply (subst Run.simps)
    apply (simp add: attempt_defs host_def prints_hi_def breaks_def second_def returned_def
        conclude_def)
    done
  have s: "returned (Send flaky connected ''a.txt'' ''/tmp/a.txt'' default_Op) = Some (Return (Some ''hi'', None))"
    unfolding Send_def
    apply (subst transfer.simps)
    apply (simp add: attempt_defs flaky_def calm_def connected_def host_def default_Op_def
        prints_hi_def second_def returned_def)
    done
  have d: "returned (Download flaky connected ''/tmp/a.txt'' ''a.txt'' default_Op) = Some (Return (Some ''hi'', None))"
    unfolding Download_def
    apply (subst transfer.simps)
    apply (simp add: attempt_defs flaky_def calm_def connected_def host_def default_Op_def
        prints_hi_def second_def returned_def)
    done
  have k: "PublicDNSName (cfg connected) = ''ec2.test''"
    by (simp add: connected_def host_def)
  from r obtain w1 sh1 where
    "Run flaky connected ''echo hi'' (default_Op\<lparr>op_retries := 2\<rparr>) = Some (w1, sh1, Return (Some ''hi'', None))"
    by (auto simp: returned_def split: option.splits)
  with success_leaves_no_ledger_entry[where w = flaky and sh = connected and cmd = "''echo hi''"
      and ret = "default_Op\<lparr>op_retries := 2\<rparr>" and w' = w1 and sh' = sh1 and out = "Some ''hi''"]
  have 1: "ledger_after (Run flaky connected ''echo hi'' (default_Op\<lparr>op_retries := 2\<rparr>)) ''ec2.testecho hi'' = Some None"
    by (simp add: ledger_after_def k)
  from s obtain w2 sh2 where
    "Send flaky connected ''a.txt'' ''/tmp/a.txt'' default_Op = Some (w2, sh2, Return (Some ''hi'', None))"
    by (auto simp: returned_def split: option.splits)
  with success_leaves_no_ledger_entry[where w = flaky and sh = connected and remotePath = "''/tmp/a.txt''"
      and localPath = "''a.txt''" and ret = default_Op and w' = w2 and sh' = sh2 and out = "Some ''hi''"]
  have 2: "ledger_after (Send flaky connected ''a.txt'' ''/tmp/a.txt'' default_Op) ''ec2.testa.txt'' = Some None"
    by (simp add: ledger_after_def k)
  from d obtain w3 sh3 where
    "Download flaky connected ''/tmp/a.txt'' ''a.txt'' default_Op = Some (w3, sh3, Return (Some ''hi'', None))"
    by (auto simp: returned_def split: option.splits)
  with success_leaves_no_ledger_entry[where w = flaky and sh = connected and remotePath = "''/tmp/a.txt''"
      and localPath = "''a.txt''" and ret = default_Op and w' = w3 and sh' = sh3 and out = "Some ''hi''"]
  have 3: "ledger_after (Download flaky connected ''/tmp/a.txt'' ''a.txt'' default_Op) ''ec2.testa.txt'' = Some None"
    by (simp add: ledger_after_def k)
  from r s d 1 2 3 show ?thesis by simp
qed

subsection \<open>The failure protocol, once\<close>

lemma Run_protocol:
  "Run w sh cmd ret =
     failure_protocol (\<lambda>w sh. Run w sh cmd ret) (PublicDNSName (cfg sh) @ cmd) ret
       (run_attempt w (seed (PublicDNSName (cfg sh) @ cmd) (op_retries ret) sh) cmd ret)"
  by (subst Run.simps) (simp add: failure_protocol_def Let_def)

lemma transfer_protocol:
  "transfer dir w sh lp rp ret =
     failure_protocol (\<lambda>w sh. transfer dir w sh lp rp ret) (PublicDNSName (cfg sh) @ lp) ret
       (scp_attempt dir w (seed (PublicDNSName (cfg sh) @ lp) (op_retries ret) sh) lp rp ret)"
  by (subst transfer.simps) (simp add: failure_protocol_def Let_def)

lemma run_attempt_keeps:
  "run_attempt w sh cmd ret = Some (w1, sh1, a) \<Longrightarrow>
     cfg sh1 = cfg sh \<and> retries sh1 = retries sh \<and> conn sh1 = conn sh \<and> cli sh1 = cli sh"
  by (auto simp: run_attempt_def execute_def observe_def Let_def
      split: prod.splits exit.splits option.splits selected.splits if_splits)

lemma scp_attempt_keeps:
  "scp_attempt dir w sh lp rp ret = Some (w1, sh1, a) \<Longrightarrow>
     cfg sh1 = cfg sh \<and> retries sh1 = retries sh \<and> conn sh1 = conn sh \<and> cli sh1 = cli sh"
  by (auto simp: scp_attempt_def scp_execute_def observe_def Let_def
      split: prod.splits sum.splits option.splits selected.splits if_splits)

lemma setenvs_split: "setenvs kvs w = (fst (setenvs kvs w), snd (setenvs kvs w))"
  by simp

lemma open_session_retries_free [simp]:
  "open_session w sh (ret\<lparr>op_retries := r\<rparr>) = open_session w sh ret"
  by (simp add: open_session_def Let_def split: option.splits prod.splits)

lemma execute_retries_free [simp]:
  "execute w sh cmd (ret\<lparr>op_retries := r\<rparr>) = execute w sh cmd ret"
  by (simp add: execute_def call_context_def Let_def split: option.splits selected.splits)

lemma run_attempt_retries_free [simp]:
  "run_attempt w sh cmd (ret\<lparr>op_retries := r\<rparr>) = run_attempt w sh cmd ret"
  by (simp add: run_attempt_def split: option.splits prod.splits exit.splits)

lemma scp_execute_retries_free [simp]:
  "scp_execute dir w sh cx args (ret\<lparr>op_retries := r\<rparr>) = scp_execute dir w sh cx args ret"
  by (simp add: scp_execute_def scp_log_def Let_def split: selected.splits)

lemma call_context_retries_free [simp]:
  "call_context l (ret\<lparr>op_retries := r\<rparr>) = call_context l ret"
  by (simp add: call_context_def)

lemma scp_attempt_retries_free [simp]:
  "scp_attempt dir w sh lp rp (ret\<lparr>op_retries := r\<rparr>) = scp_attempt dir w sh lp rp ret"
  by (simp add: scp_attempt_def split: option.splits prod.splits sum.splits)

lemma recover_retries_free [simp]:
  "recover w sh k (ret\<lparr>op_retries := r\<rparr>) = recover w sh k ret"
  by (simp add: recover_def split: option.splits prod.splits exit.splits)

lemma seed_present: "retries sh k \<noteq> None \<Longrightarrow> seed k r sh = sh"
  by (auto simp: seed_def)

lemma failure_protocol_transfer:
  assumes "failure_protocol g k ret a = Some y"
    and "\<And>w1 sh1 x w2 sh2 u y2. a = Some (w1, sh1, x) \<Longrightarrow>
           recover (emit (Log Warn ''command failed'') w1) sh1 k ret = Some (w2, sh2, Return u) \<Longrightarrow>
           g w2 sh2 = Some y2 \<Longrightarrow> h w2 sh2 = Some y2"
  shows "failure_protocol h k (ret\<lparr>op_retries := r\<rparr>) a = Some y"
  using assms
  by (auto simp: failure_protocol_def Let_def
      split: option.splits prod.splits attempt.splits exit.splits if_splits Option.bind_splits)

lemma Run_ignores_retries_aux:
  assumes "Run w0 sh0 cmd0 ret0 = Some y0"
  shows "retries sh0 (PublicDNSName (cfg sh0) @ cmd0) \<noteq> None \<longrightarrow>
     (\<forall>r. Run w0 sh0 cmd0 (ret0\<lparr>op_retries := r\<rparr>) = Some y0)"
proof (rule Run.raw_induct[where P = "\<lambda>w sh cmd ret y.
     retries sh (PublicDNSName (cfg sh) @ cmd) \<noteq> None \<longrightarrow>
     (\<forall>r. Run w sh cmd (ret\<lparr>op_retries := r\<rparr>) = Some y)", OF _ assms], goal_cases)
  case (1 f w sh cmd ret y)
  let ?k = "PublicDNSName (cfg sh) @ cmd"
  show ?case
  proof (intro impI allI)
    fix r
    assume present: "retries sh ?k \<noteq> None"
    from 1(2) present
    have step: "failure_protocol (\<lambda>w sh. f w sh cmd ret) ?k ret (run_attempt w sh cmd ret) = Some y"
      by (simp add: failure_protocol_def Let_def seed_present)
    have "failure_protocol (\<lambda>w sh. Run w sh cmd (ret\<lparr>op_retries := r\<rparr>)) ?k (ret\<lparr>op_retries := r\<rparr>)
            (run_attempt w sh cmd ret) = Some y"
    proof (rule failure_protocol_transfer[OF step], goal_cases)
      case (1 w1 sh1 x w2 sh2 u y2)
      from run_attempt_keeps[OF 1(1)] have a: "cfg sh1 = cfg sh" "retries sh1 = retries sh"
        by auto
      from recover_keeps[OF 1(2)] a present
      have b: "cfg sh2 = cfg sh" "retries sh2 ?k \<noteq> None" by auto
      from \<open>\<And>w sh cmd ret y. f w sh cmd ret = Some y \<Longrightarrow>
          retries sh (PublicDNSName (cfg sh) @ cmd) \<noteq> None \<longrightarrow>
          (\<forall>r. Run w sh cmd (ret\<lparr>op_retries := r\<rparr>) = Some y)\<close>[OF 1(3)] b
      show ?case by simp
    qed
    then show "Run w sh cmd (ret\<lparr>op_retries := r\<rparr>) = Some y"
      by (subst Run_protocol) (simp add: seed_present present)
  qed
qed

lemma Run_ignores_retries:
  assumes "retries sh (PublicDNSName (cfg sh) @ cmd) \<noteq> None"
  shows "Run w sh cmd (ret\<lparr>op_retries := r\<rparr>) = Run w sh cmd ret"
proof (cases "Run w sh cmd ret")
  case (Some y)
  from Run_ignores_retries_aux[OF this] assms show ?thesis using Some by simp
next
  case None
  show ?thesis
  proof (cases "Run w sh cmd (ret\<lparr>op_retries := r\<rparr>)")
    case (Some y)
    from Run_ignores_retries_aux[OF this] assms
    have "Run w sh cmd (ret\<lparr>op_retries := r, op_retries := op_retries ret\<rparr>) = Some y"
      by blast
    with None show ?thesis by simp
  qed (simp add: None)
qed

lemma transfer_ignores_retries_aux:
  assumes "transfer dir0 w0 sh0 lp0 rp0 ret0 = Some y0"
  shows "retries sh0 (PublicDNSName (cfg sh0) @ lp0) \<noteq> None \<longrightarrow>
     (\<forall>r. transfer dir0 w0 sh0 lp0 rp0 (ret0\<lparr>op_retries := r\<rparr>) = Some y0)"
proof (rule transfer.raw_induct[where P = "\<lambda>dir w sh lp rp ret y.
     retries sh (PublicDNSName (cfg sh) @ lp) \<noteq> None \<longrightarrow>
     (\<forall>r. transfer dir w sh lp rp (ret\<lparr>op_retries := r\<rparr>) = Some y)", OF _ assms], goal_cases)
  case (1 f dir w sh lp rp ret y)
  let ?k = "PublicDNSName (cfg sh) @ lp"
  show ?case
  proof (intro impI allI)
    fix r
    assume present: "retries sh ?k \<noteq> None"
    from 1(2) present
    have step: "failure_protocol (\<lambda>w sh. f dir w sh lp rp ret) ?k ret (scp_attempt dir w sh lp rp ret) = Some y"
      by (simp add: failure_protocol_def Let_def seed_present)
    have "failure_protocol (\<lambda>w sh. transfer dir w sh lp rp (ret\<lparr>op_retries := r\<rparr>)) ?k (ret\<lparr>op_retries := r\<rparr>)
            (scp_attempt dir w sh lp rp ret) = Some y"
    proof (rule failure_protocol_transfer[OF step], goal_cases)
      case (1 w1 sh1 x w2 sh2 u y2)
      from scp_attempt_keeps[OF 1(1)] have a: "cfg sh1 = cfg sh" "retries sh1 = retries sh"
        by auto
      from recover_keeps[OF 1(2)] a present
      have b: "cfg sh2 = cfg sh" "retries sh2 ?k \<noteq> None" by auto
      from \<open>\<And>dir w sh lp rp ret y. f dir w sh lp rp ret = Some y \<Longrightarrow>
          retries sh (PublicDNSName (cfg sh) @ lp) \<noteq> None \<longrightarrow>
          (\<forall>r. transfer dir w sh lp rp (ret\<lparr>op_retries := r\<rparr>) = Some y)\<close>[OF 1(3)] b
      show ?case by simp
    qed
    then show "transfer dir w sh lp rp (ret\<lparr>op_retries := r\<rparr>) = Some y"
      by (subst transfer_protocol) (simp add: seed_present present)
  qed
qed

lemma transfer_ignores_retries:
  assumes "retries sh (PublicDNSName (cfg sh) @ lp) \<noteq> None"
  shows "transfer dir w sh lp rp (ret\<lparr>op_retries := r\<rparr>) = transfer dir w sh lp rp ret"
proof (cases "transfer dir w sh lp rp ret")
  case (Some y)
  from transfer_ignores_retries_aux[OF this] assms show ?thesis using Some by simp
next
  case None
  show ?thesis
  proof (cases "transfer dir w sh lp rp (ret\<lparr>op_retries := r\<rparr>)")
    case (Some y)
    from transfer_ignores_retries_aux[OF this] assms
    have "transfer dir w sh lp rp (ret\<lparr>op_retries := r, op_retries := op_retries ret\<rparr>) = Some y"
      by blast
    with None show ?thesis by simp
  qed (simp add: None)
qed

lemma Run_broken_stale:
  "Run broken stale ''false'' default_Op =
     Some (broken\<lparr>trace := [NewSession, Log Info ''created client session, running command'',
             StartTask ''false'', SessionClose, CancelCall, Log Info ''ran command'',
             Log Warn ''command failed'']\<rparr>, stale, Return (Some [], Some (Error ''exit status 1'')))"
  apply (subst Run.simps)
  apply (simp add: attempt_defs broken_def calm_def stale_def connected_def host_def default_Op_def
      breaks_def second_def)
  done

lemma Send_broken_stale:
  "Send broken stale ''a.txt'' ''/tmp/a.txt'' default_Op =
     Some (broken\<lparr>trace := [LookPath ''scp'', Chmod ''id_rsa'',
             Scp [''/usr/bin/scp'', ''-oStrictHostKeyChecking=no'', ''-i'', ''id_rsa'', ''a.txt'',
                  ''ec2-user@ec2.test:/tmp/a.txt''],
             CancelCall, Log Info ''sent'', Log Warn ''command failed'']\<rparr>,
           stale, Return (Some [], Some (Error ''exit status 1'')))"
  unfolding Send_def
  apply (subst transfer.simps)
  apply (simp add: attempt_defs broken_def calm_def stale_def connected_def host_def default_Op_def
      breaks_def second_def)
  done

lemma Download_broken_stale:
  "Download broken stale ''/tmp/a.txt'' ''a.txt'' default_Op =
     Some (broken\<lparr>trace := [LookPath ''scp'', Chmod ''id_rsa'',
             Scp [''/usr/bin/scp'', ''-oStrictHostKeyChecking=no'', ''-i'', ''id_rsa'',
                  ''ec2-user@ec2.test:/tmp/a.txt'', ''a.txt''],
             CancelCall, Log Info ''downloaded'', Log Warn ''command failed'']\<rparr>,
           stale, Return (Some [], Some (Error ''exit status 1'')))"
  unfolding Download_def
  apply (subst transfer.simps)
  apply (simp add: attempt_defs broken_def calm_def stale_def connected_def host_def default_Op_def
      breaks_def second_def)
  done

text \<open>
  Claim C9. When the ledger already has an entry for the key of a call to
  \<open>Run\<close>, \<open>Send\<close> or \<open>Download\<close>, the retries option of that call has no
  effect at all: the call does the same, and returns the same, whatever number
  of retries it asks for.
\<close>

theorem existing_entry_decides_retries:
  "(retries sh (PublicDNSName (cfg sh) @ cmd) \<noteq> None \<longrightarrow>
      Run w sh cmd (ret\<lparr>op_retries := r\<rparr>) = Run w sh cmd ret) \<and>
   (retries sh (PublicDNSName (cfg sh) @ localPath) \<noteq> None \<longrightarrow>
      Send w sh localPath remotePath (ret\<lparr>op_retries := r\<rparr>) = Send w sh localPath remotePath ret \<and>
      Download w sh remotePath localPath (ret\<lparr>op_retries := r\<rparr>) = Download w sh remotePath localPath ret)"
  by (simp add: Send_def Download_def Run_ignores_retries transfer_ignores_retries)

theorem existing_entry_decides_retries_witness:
  "retries stale (PublicDNSName (cfg stale) @ ''false'') \<noteq> None \<and>
   retries stale (PublicDNSName (cfg stale) @ ''a.txt'') \<noteq> None \<and>
   returned (Run broken stale ''false'' (default_Op\<lparr>op_retries := 3\<rparr>))
     = Some (Return (Some [], Some (Error ''exit status 1''))) \<and>
   returned (Send broken stale ''a.txt'' ''/tmp/a.txt'' (default_Op\<lparr>op_retries := 3\<rparr>))
     = Some (Return (Some [], Some (Error ''exit status 1''))) \<and>
   returned (Download broken stale ''/tmp/a.txt'' ''a.txt'' (default_Op\<lparr>op_retries := 3\<rparr>))
     = Some (Return (Some [], Some (Error ''exit status 1''))) \<and>
   trace_after (Run broken stale ''false'' (default_Op\<lparr>op_retries := 3\<rparr>))
     = Some [NewSession, Log Info ''created client session, running command'',
             StartTask ''false'', SessionClose, CancelCall, Log Info ''ran command'',
             Log Warn ''command failed'']"
proof -
  have k: "retries stale (PublicDNSName (cfg stale) @ ''false'') \<noteq> None"
    "retries stale (PublicDNSName (cfg stale) @ ''a.txt'') \<noteq> None"
    by (simp_all add: stale_def connected_def host_def)
  from existing_entry_decides_retries[where sh = stale and cmd = "''false''" and localPath = "''a.txt''"
      and w = broken and ret = default_Op and r = 3 and remotePath = "''/tmp/a.txt''"] k
  show ?thesis
    by (simp add: Run_broken_stale Send_broken_stale Download_broken_stale returned_def trace_after_def)
qed

subsection \<open>A call without retries\<close>

lemma reconnects_append [simp]: "reconnects (xs @ ys) = reconnects xs @ reconnects ys"
  by (induction xs rule: reconnects.induct) simp_all

lemma slept_append [simp]: "slept (xs @ ys) = slept xs + slept ys"
  by (induction xs rule: slept.induct) simp_all

lemma dial_timeouts_append [simp]: "dial_timeouts (xs @ ys) = dial_timeouts xs @ dial_timeouts ys"
  by (induction xs rule: dial_timeouts.induct) simp_all

lemma setenvs_reconnects:
  "reconnects (trace (fst (setenvs kvs w))) = reconnects (trace w)"
  by (induction kvs w rule: setenvs.induct) (simp_all add: Let_def emit_def split: option.splits)

lemma open_session_reconnects:
  "reconnects (trace (fst (open_session w sh ret))) = reconnects (trace w)"
proof -
  have s: "reconnects (trace w1) = reconnects (trace w0)"
    if "setenvs kvs w0 = (w1, r)" for kvs w0 w1 r
    using setenvs_reconnects[of kvs w0] that by simp
  show ?thesis
    by (auto simp: open_session_def Let_def emit_def split: option.splits prod.splits dest!: s)
qed

lemma execute_reconnects:
  "execute w sh cmd ret = Some (w1, sh1, a) \<Longrightarrow> reconnects (trace w1) = reconnects (trace w)"
  by (auto simp: execute_def Let_def emit_def split: option.splits selected.splits if_splits)

lemma run_attempt_reconnects:
  assumes "run_attempt w sh cmd ret = Some (w1, sh1, a)"
  shows "reconnects (trace w1) = reconnects (trace w)"
proof -
  obtain w0 r where o: "open_session w sh ret = (w0, r)"
    by (cases "open_session w sh ret") auto
  with open_session_reconnects[of w sh ret] have "reconnects (trace w0) = reconnects (trace w)"
    by simp
  with assms o show ?thesis
    by (auto simp: run_attempt_def split: exit.splits option.splits dest: execute_reconnects)
qed

lemma budget_seed_zero:
  "budget sh k = 0 \<Longrightarrow> retries (seed k 0 sh) k = Some 0"
  by (auto simp: budget_def seed_def split: option.splits)

lemma Run_broken_connected:
  "Run broken connected ''false'' default_Op =
     Some (broken\<lparr>trace := [NewSession, Log Info ''created client session, running command'',
             StartTask ''false'', SessionClose, CancelCall, Log Info ''ran command'',
             Log Warn ''command failed'']\<rparr>,
           connected\<lparr>retries := [''ec2.testfalse'' \<mapsto> 0]\<rparr>,
           Return (Some [], Some (Error ''exit status 1'')))"
  apply (subst Run.simps)
  apply (simp add: attempt_defs broken_def calm_def connected_def host_def default_Op_def
      breaks_def second_def)
  done

text \<open>
  Claim C1, as the code has it. A call of \<open>Run\<close> with retries = 0 whose key has
  no ledger entry beforehand (or an entry of zero), and whose command fails,
  returns that failure at once: nothing is closed, dialed or handshaked, the
  connection and the client handle stay as they were. The ledger then holds
  the entry zero for the key of the call.
\<close>

theorem Run_without_retries:
  assumes "op_retries ret = 0"
    and "budget sh (PublicDNSName (cfg sh) @ cmd) = 0"
    and "run_attempt w (seed (PublicDNSName (cfg sh) @ cmd) 0 sh) cmd ret
           = Some (w1, sh1, Finished out (Some e))"
  shows "Run w sh cmd ret = Some (emit (Log Warn ''command failed'') w1, sh1, Return (out, Some e)) \<and>
     reconnects (trace (emit (Log Warn ''command failed'') w1)) = reconnects (trace w) \<and>
     conn sh1 = conn sh \<and> cli sh1 = cli sh \<and>
     retries sh1 (PublicDNSName (cfg sh) @ cmd) = Some 0"
proof -
  let ?k = "PublicDNSName (cfg sh) @ cmd"
  from run_attempt_keeps[OF assms(3)] budget_seed_zero[OF assms(2)]
  have k: "retries sh1 ?k = Some 0" "conn sh1 = conn sh" "cli sh1 = cli sh"
    by (simp_all add: seed_def split: option.splits)
  then have b: "budget sh1 ?k = 0" by (simp add: budget_def)
  have "Run w sh cmd ret = Some (emit (Log Warn ''command failed'') w1, sh1, Return (out, Some e))"
    by (subst Run_protocol) (simp add: assms failure_protocol_def b finish_def)
  with k run_attempt_reconnects[OF assms(3)] show ?thesis
    by (simp add: emit_def)
qed

theorem Run_without_retries_counterexample:
  "returned (Run broken connected ''false'' default_Op)
     = Some (Return (Some [], Some (Error ''exit status 1''))) \<and>
   ledger_after (Run broken connected ''false'' default_Op) ''ec2.testfalse'' = Some (Some 0)"
  by (simp add: Run_broken_connected returned_def ledger_after_def)

theorem Run_without_retries_witness:
  "op_retries default_Op = 0 \<and>
   budget connected (PublicDNSName (cfg connected) @ ''false'') = 0 \<and>
   Run broken connected ''false'' default_Op =
     Some (broken\<lparr>trace := [NewSession, Log Info ''created client session, running command'',
             StartTask ''false'', SessionClose, CancelCall, Log Info ''ran command'',
             Log Warn ''command failed'']\<rparr>,
           connected\<lparr>retries := [''ec2.testfalse'' \<mapsto> 0]\<rparr>,
           Return (Some [], Some (Error ''exit status 1''))) \<and>
   reconnects [NewSession, Log Info ''created client session, running command'',
             StartTask ''false'', SessionClose, CancelCall, Log Info ''ran command'',
             Log Warn ''command failed''] = []"
proof -
  have 1: "op_retries default_Op = 0" by (simp add: default_Op_def)
  have 2: "budget connected (PublicDNSName (cfg connected) @ ''false'') = 0"
    by (simp add: budget_def connected_def)
  have 3: "run_attempt broken (seed (PublicDNSName (cfg connected) @ ''false'') 0 connected) ''false'' default_Op
     = Some (broken\<lparr>trace := [NewSession, Log Info ''created client session, running command'',
             StartTask ''false'', SessionClose, CancelCall, Log Info ''ran command'']\<rparr>,
           connected\<lparr>retries := [''ec2.testfalse'' \<mapsto> 0]\<rparr>,
           Finished (Some []) (Some (Error ''exit status 1'')))"
    by (simp add: attempt_defs broken_def calm_def connected_def host_def default_Op_def
      breaks_def second_def)
  from Run_without_retries[OF 1 2 3] 1 2 show ?thesis
    by (simp add: emit_def broken_def calm_def)
qed

subsection \<open>A transfer without the tool\<close>

lemma transfer_lookup_failure:
  assumes "ctx sh = Some l" "ohd (o_lookPath w) = Inl e"
  shows "transfer dir w sh lp rp ret =
     Some (w\<lparr>o_lookPath := otl (o_lookPath w), trace := trace w @ [LookPath ''scp'', CancelCall]\<rparr>,
           seed (PublicDNSName (cfg sh) @ lp) (op_retries ret) sh, Return (None, Some e))"
  apply (subst transfer_protocol)
  using assms
  apply (simp add: failure_protocol_def scp_attempt_def scp_prepare_def Let_def emit_def seed_def
      split: option.splits)
  done

lemma Send_notool:
  "Send notool connected ''a.txt'' ''/tmp/a.txt'' (default_Op\<lparr>op_retries := 1\<rparr>) =
     Some (notool\<lparr>trace := [LookPath ''scp'', CancelCall]\<rparr>,
           connected\<lparr>retries := [''ec2.testa.txt'' \<mapsto> 1]\<rparr>,
           Return (None, Some (Error ''exec: scp: executable file not found'')))"
  unfolding Send_def
  apply (subst transfer.simps)
  apply (simp add: attempt_defs notool_def calm_def connected_def host_def default_Op_def)
  done

text \<open>
  Claim C3, as the code has it. The ledger entry of a key is made at the start
  of the first call that finds none, before anything has failed. A call of
  \<open>Send\<close> on a machine without the secure-copy tool returns the lookup error at
  once and reconnects nothing: the trace gains the lookup and the cancelling of
  the call's context, and the connection and the client handle stay as they
  were. By then the ledger has been seeded: the key of the call holds the
  requested retries when it had no entry, and its old value otherwise.
\<close>

theorem Send_without_tool:
  assumes "ctx sh = Some l" and "ohd (o_lookPath w) = Inl e"
  shows "Send w sh localPath remotePath ret =
     Some (w\<lparr>o_lookPath := otl (o_lookPath w), trace := trace w @ [LookPath ''scp'', CancelCall]\<rparr>,
           seed (PublicDNSName (cfg sh) @ localPath) (op_retries ret) sh, Return (None, Some e)) \<and>
   retries (seed (PublicDNSName (cfg sh) @ localPath) (op_retries ret) sh) (PublicDNSName (cfg sh) @ localPath)
     = Some (case retries sh (PublicDNSName (cfg sh) @ localPath) of None \<Rightarrow> op_retries ret | Some v \<Rightarrow> v) \<and>
   conn (seed (PublicDNSName (cfg sh) @ localPath) (op_retries ret) sh) = conn sh \<and>
   cli (seed (PublicDNSName (cfg sh) @ localPath) (op_retries ret) sh) = cli sh"
  using transfer_lookup_failure[OF assms]
  by (simp add: Send_def seed_def split: option.splits)

theorem Send_without_tool_counterexample:
  "retries connected ''ec2.testa.txt'' = None \<and>
   returned (Send notool connected ''a.txt'' ''/tmp/a.txt'' (default_Op\<lparr>op_retries := 1\<rparr>))
     = Some (Return (None, Some (Error ''exec: scp: executable file not found''))) \<and>
   ledger_after (Send notool connected ''a.txt'' ''/tmp/a.txt'' (default_Op\<lparr>op_retries := 1\<rparr>))
     ''ec2.testa.txt'' = Some (Some 1)"
  by (simp add: Send_notool returned_def ledger_after_def) (simp add: connected_def)

theorem Send_without_tool_witness:
  "ctx connected = Some (Lifetime False) \<and>
   ohd (o_lookPath notool) = Inl (Error ''exec: scp: executable file not found'') \<and>
   Send notool connected ''a.txt'' ''/tmp/a.txt'' (default_Op\<lparr>op_retries := 1\<rparr>) =
     Some (notool\<lparr>trace := [LookPath ''scp'', CancelCall]\<rparr>,
           connected\<lparr>retries := [''ec2.testa.txt'' \<mapsto> 1]\<rparr>,
           Return (None, Some (Error ''exec: scp: executable file not found'')))"
proof -
  have 1: "ctx connected = Some (Lifetime False)" by (simp add: connected_def)
  have 2: "ohd (o_lookPath notool) = Inl (Error ''exec: scp: executable file not found'')"
    by (simp add: notool_def calm_def)
  from Send_without_tool[OF 1 2, of "''a.txt''" "''/tmp/a.txt''" "default_Op\<lparr>op_retries := 1\<rparr>"] 1 2
  show ?thesis
    by (simp add: notool_def calm_def connected_def host_def default_Op_def seed_def)
qed

subsection \<open>A call whose context is done first\<close>

lemma seed_keeps [simp]:
  "cfg (seed k r sh) = cfg sh" "ctx (seed k r sh) = ctx sh" "cli (seed k r sh) = cli sh"
  "conn (seed k r sh) = conn sh"
  by (simp_all add: seed_def split: option.splits)

lemma open_session_seed [simp]: "open_session w (seed k r sh) ret = open_session w sh ret"
  by (simp add: open_session_def Let_def split: option.splits)

lemma ctx_done_errors: "ctx_done cx lc = Some (t, e) \<Longrightarrow> e = Canceled \<or> e = DeadlineExceeded"
  by (cases cx) (auto split: if_splits option.splits)

lemma select_CtxFirst: "select td cd tie = CtxFirst e \<Longrightarrow> \<exists>t. cd = Some (t, e)"
  by (cases "(td, cd, tie)" rule: select.cases) (auto split: if_splits)

lemma execute_cancelled:
  assumes "ctx sh = Some l"
    and "select (task_done (ohd (o_exec w))) (ctx_done (call_context l ret) (life_cancel (ohd (o_exec w))))
           (ctx_wins_tie (ohd (o_exec w))) = CtxFirst e"
  shows "execute w sh cmd ret =
     Some (w\<lparr>o_exec := otl (o_exec w),
             trace := trace w @ [StartTask cmd, SessionClose, CancelCall, AwaitTask] @
               (if op_verbose ret then [Log Info ''ran command''] else [])\<rparr>,
           observe e sh, Finished None (Some e))"
  using assms by (simp add: execute_def Let_def emit_def)

lemma Run_stuck_once:
  "returned (Run stuck_once connected ''sleep 60'' (default_Op\<lparr>op_retries := 1, op_timeout := 30 * second\<rparr>))
     = Some (Return (Some ''hi'', None))"
  apply (subst Run.simps)
  apply (simp add: attempt_defs stuck_once_def calm_def connected_def host_def default_Op_def
      prints_hi_def hangs_def second_def recover_def Close_def reconnect_first)
  apply (subst Run.simps)
  apply (simp add: attempt_defs host_def prints_hi_def second_def returned_def conclude_def)
  done

text \<open>
  Claim C6, as the code has it. When, in \<open>Run\<close>, the call's context is done
  before the command's task (the deadline has passed or the lifetime was
  cancelled), the session is closed, the call's context is cancelled and the
  task is awaited, in this order; the result of the task is dropped and the
  attempt ends with nil output and the error of the context, which is
  \<open>Canceled\<close> or \<open>DeadlineExceeded\<close>. The call returns these two when the ledger
  has no budget left for its key. With budget left the failure protocol runs
  as after any other failure.
\<close>

theorem Run_cancelled:
  assumes "open_session w sh ret = (w1, Return None)"
    and "ctx sh = Some l"
    and "select (task_done (ohd (o_exec w1)))
           (ctx_done (call_context l ret) (life_cancel (ohd (o_exec w1))))
           (ctx_wins_tie (ohd (o_exec w1))) = CtxFirst e"
  shows "(e = Canceled \<or> e = DeadlineExceeded) \<and>
     run_attempt w sh cmd ret =
       Some (w1\<lparr>o_exec := otl (o_exec w1),
               trace := trace w1 @ [StartTask cmd, SessionClose, CancelCall, AwaitTask] @
                 (if op_verbose ret then [Log Info ''ran command''] else [])\<rparr>,
             observe e sh, Finished None (Some e)) \<and>
     (budget (seed (PublicDNSName (cfg sh) @ cmd) (op_retries ret) sh) (PublicDNSName (cfg sh) @ cmd) = 0 \<longrightarrow>
        Run w sh cmd ret =
          Some (w1\<lparr>o_exec := otl (o_exec w1),
                  trace := trace w1 @ [StartTask cmd, SessionClose, CancelCall, AwaitTask] @
                    (if op_verbose ret then [Log Info ''ran command''] else []) @
                    [Log Warn ''command failed'']\<rparr>,
                observe e (seed (PublicDNSName (cfg sh) @ cmd) (op_retries ret) sh),
                Return (None, Some e)))"
proof -
  let ?k = "PublicDNSName (cfg sh) @ cmd"
  let ?sh = "seed ?k (op_retries ret) sh"
  from select_CtxFirst[OF assms(3)] ctx_done_errors
  have 1: "e = Canceled \<or> e = DeadlineExceeded" by blast
  have 2: "run_attempt w s cmd ret =
       Some (w1\<lparr>o_exec := otl (o_exec w1),
               trace := trace w1 @ [StartTask cmd, SessionClose, CancelCall, AwaitTask] @
                 (if op_verbose ret then [Log Info ''ran command''] else [])\<rparr>,
             observe e s, Finished None (Some e))"
    if "open_session w s ret = (w1, Return None)" "ctx s = Some l" for s
    using that execute_cancelled[OF that(2) assms(3), of cmd] by (simp add: run_attempt_def)
  have 3: "Run w sh cmd ret =
          Some (w1\<lparr>o_exec := otl (o_exec w1),
                  trace := trace w1 @ [StartTask cmd, SessionClose, CancelCall, AwaitTask] @
                    (if op_verbose ret then [Log Info ''ran command''] else []) @
                    [Log Warn ''command failed'']\<rparr>,
                observe e ?sh, Return (None, Some e))"
    if b: "budget ?sh ?k = 0"
  proof -
    have "budget (observe e ?sh) ?k = 0"
      using b by (simp add: budget_def observe_def)
    then show ?thesis
      by (subst Run_protocol) (simp add: 2[of ?sh] assms failure_protocol_def finish_def emit_def)
  qed
  from 1 2[OF assms(1,2)] 3 show ?thesis by blast
qed


theorem Run_cancelled_counterexample:
  "select (task_done hangs)
     (ctx_done (call_context (Lifetime False) (default_Op\<lparr>op_retries := 1, op_timeout := 30 * second\<rparr>))
        (life_cancel hangs))
     (ctx_wins_tie hangs) = CtxFirst DeadlineExceeded \<and>
   ohd (o_exec stuck_once) = hangs \<and>
   returned (Run stuck_once connected ''sleep 60'' (default_Op\<lparr>op_retries := 1, op_timeout := 30 * second\<rparr>))
     = Some (Return (Some ''hi'', None))"
  by (simp add: Run_stuck_once) (simp add: call_context_def hangs_def default_Op_def second_def stuck_once_def)

theorem Run_cancelled_witness:
  "open_session stuck connected (default_Op\<lparr>op_timeout := 30 * second\<rparr>) =
     (stuck\<lparr>trace := [NewSession, Log Info ''created client session, running command'']\<rparr>, Return None) \<and>
   ctx connected = Some (Lifetime False) \<and>
   Run stuck connected ''sleep 60'' (default_Op\<lparr>op_timeout := 30 * second\<rparr>) =
     Some (stuck\<lparr>trace := [NewSession, Log Info ''created client session, running command'',
              StartTask ''sleep 60'', SessionClose, CancelCall, AwaitTask, Log Info ''ran command'',
              Log Warn ''command failed'']\<rparr>,
           connected\<lparr>retries := [''ec2.testsleep 60'' \<mapsto> 0]\<rparr>,
           Return (None, Some DeadlineExceeded))"
proof -
  let ?ret = "default_Op\<lparr>op_timeout := 30 * second\<rparr>"
  let ?w1 = "stuck\<lparr>trace := [NewSession, Log Info ''created client session, running command'']\<rparr>"
  have 1: "open_session stuck connected ?ret = (?w1, Return None)"
    by (simp add: open_session_def stuck_def calm_def connected_def host_def default_Op_def
        Let_def emit_def)
  have 2: "ctx connected = Some (Lifetime False)" by (simp add: connected_def)
  have 3: "select (task_done (ohd (o_exec ?w1)))
           (ctx_done (call_context (Lifetime False) ?ret) (life_cancel (ohd (o_exec ?w1))))
           (ctx_wins_tie (ohd (o_exec ?w1))) = CtxFirst DeadlineExceeded"
    by (simp add: stuck_def calm_def hangs_def call_context_def default_Op_def second_def)
  have 4: "budget (seed (PublicDNSName (cfg connected) @ ''sleep 60'') (op_retries ?ret) connected)
      (PublicDNSName (cfg connected) @ ''sleep 60'') = 0"
    by (simp add: budget_def seed_def connected_def default_Op_def)
  from Run_cancelled[OF 1 2 3, of "''sleep 60''"] 4
  have "Run stuck connected ''sleep 60'' ?ret =
     Some (?w1\<lparr>o_exec := otl (o_exec ?w1),
             trace := trace ?w1 @ [StartTask ''sleep 60'', SessionClose, CancelCall, AwaitTask] @
               (if op_verbose ?ret then [Log Info ''ran command''] else []) @ [Log Warn ''command failed'']\<rparr>,
           observe DeadlineExceeded (seed (PublicDNSName (cfg connected) @ ''sleep 60'') (op_retries ?ret) connected),
           Return (None, Some DeadlineExceeded))"
    by blast
  then have "Run stuck connected ''sleep 60'' ?ret =
     Some (stuck\<lparr>trace := [NewSession, Log Info ''created client session, running command'',
              StartTask ''sleep 60'', SessionClose, CancelCall, AwaitTask, Log Info ''ran command'',
              Log Warn ''command failed'']\<rparr>,
           connected\<lparr>retries := [''ec2.testsleep 60'' \<mapsto> 0]\<rparr>,
           Return (None, Some DeadlineExceeded))"
    by (simp add: stuck_def calm_def connected_def host_def default_Op_def seed_def observe_def)
  with 1 2 show ?thesis by simp
qed

subsection \<open>A call without a timeout\<close>

lemma scp_prepare_seed [simp]: "scp_prepare w (seed k r sh) = scp_prepare w sh"
  by (simp add: scp_prepare_def Let_def split: sum.splits option.splits)

lemma scp_args_seed [simp]: "scp_args dir (seed k r sh) p lp rp = scp_args dir sh p lp rp"
  by (simp add: scp_args_def)

lemma failure_protocol_None [simp]: "failure_protocol again k ret None = None"
  by (simp add: failure_protocol_def)

lemma execute_zero_timeout:
  assumes "op_timeout ret = 0" "ctx sh = Some (Lifetime False)"
  shows "execute w sh cmd ret =
    (case select (task_done (ohd (o_exec w)))
            (case life_cancel (ohd (o_exec w)) of None \<Rightarrow> None | Some c \<Rightarrow> Some (c, Canceled))
            (ctx_wins_tie (ohd (o_exec w))) of
       Blocked \<Rightarrow> None
     | CtxFirst e \<Rightarrow>
        Some (w\<lparr>o_exec := otl (o_exec w),
                trace := trace w @ [StartTask cmd, SessionClose, CancelCall, AwaitTask] @
                  (if op_verbose ret then [Log Info ''ran command''] else [])\<rparr>,
              observe e sh, Finished None (Some e))
     | TaskFirst \<Rightarrow>
        Some (w\<lparr>o_exec := otl (o_exec w),
                trace := trace w @ [StartTask cmd, SessionClose, CancelCall] @
                  (if op_verbose ret then [Log Info ''ran command''] else [])\<rparr>,
              sh, Finished (task_out (ohd (o_exec w))) (task_err (ohd (o_exec w)))))"
  using assms
  by (simp add: execute_def call_context_def Let_def emit_def split: selected.splits)


lemma attempted_None [simp]: "attempted r = None \<longleftrightarrow> r = None"
  by (auto simp: attempted_def split: option.splits)




subsection \<open>The dial loop\<close>

lemma dial_loop_failed:
  assumes "0 < n" "\<not> ohd (o_ctxDone w)" "ohd (o_dial w) = Some e"
  shows "dial_loop n err w sh =
     dial_loop (n - 1) (Some e)
       (w\<lparr>o_ctxDone := otl (o_ctxDone w), o_dial := otl (o_dial w),
           trace := trace w @ [Dial (PublicIP (cfg sh) @ '':22'') (15 * second)] @
             (case e of
                OpError m \<Rightarrow>
                  if Contains m ECONNREFUSED
                  then [Log Warn ''failed to dial (instance might not be ready yet)''] else []
              | _ \<Rightarrow> [Log Warn ''failed to dial'']) @
             [Sleep (5 * second)]\<rparr>)
       (sh\<lparr>conn := None\<rparr>)"
  using assms by (cases n; cases e) (simp_all add: Let_def emit_def)

lemma slept_warning [simp]:
  "slept (case e of
            OpError m \<Rightarrow>
              if Contains m ECONNREFUSED
              then [Log Warn ''failed to dial (instance might not be ready yet)''] else []
          | _ \<Rightarrow> [Log Warn ''failed to dial'']) = 0"
  by (cases e) simp_all

lemma dial_timeouts_warning [simp]:
  "dial_timeouts (case e of
            OpError m \<Rightarrow>
              if Contains m ECONNREFUSED
              then [Log Warn ''failed to dial (instance might not be ready yet)''] else []
          | _ \<Rightarrow> [Log Warn ''failed to dial'']) = []"
  by (cases e) simp_all

lemma dial_loop_stopped:
  "ohd (o_ctxDone w) \<Longrightarrow>
   dial_loop (Suc n) err w sh =
     (w\<lparr>o_ctxDone := otl (o_ctxDone w)\<rparr>, sh\<lparr>ctx := Some (Lifetime True)\<rparr>, Inl (Error ''stopped''))"
  by (simp add: Let_def)

text \<open>Every iteration dials once, with a timeout of fifteen seconds.\<close>

lemma dial_loop_bound:
  "\<exists>m\<le>n. dial_timeouts (trace (fst (dial_loop n err w sh))) =
            dial_timeouts (trace w) @ replicate m (15 * second)"
proof (induction n arbitrary: err w sh)
  case 0
  then show ?case by simp
next
  case (Suc n)
  show ?case
  proof (cases "ohd (o_ctxDone w)")
    case True
    then show ?thesis by (simp add: dial_loop_stopped)
  next
    case False
    show ?thesis
    proof (cases "ohd (o_dial w)")
      case None
      have "dial_timeouts (trace (fst (dial_loop (Suc n) err w sh))) =
          dial_timeouts (trace w) @ replicate (Suc 0) (15 * second)"
        by (simp add: dial_loop_first[OF zero_less_Suc False None] del: dial_loop.simps)
      then show ?thesis by blast
    next
      case (Some e)
      let ?w = "w\<lparr>o_ctxDone := otl (o_ctxDone w), o_dial := otl (o_dial w),
           trace := trace w @ [Dial (PublicIP (cfg sh) @ '':22'') (15 * second)] @
             (case e of
                OpError m \<Rightarrow>
                  if Contains m ECONNREFUSED
                  then [Log Warn ''failed to dial (instance might not be ready yet)''] else []
              | _ \<Rightarrow> [Log Warn ''failed to dial'']) @
             [Sleep (5 * second)]\<rparr>"
      from Suc.IH[of "Some e" ?w "sh\<lparr>conn := None\<rparr>"] obtain m where
        m: "m \<le> n" "dial_timeouts (trace (fst (dial_loop n (Some e) ?w (sh\<lparr>conn := None\<rparr>)))) =
            dial_timeouts (trace ?w) @ replicate m (15 * second)"
        by blast
      have "dial_timeouts (trace (fst (dial_loop (Suc n) err w sh))) =
          dial_timeouts (trace w) @ replicate (Suc m) (15 * second)"
        using m(2) by (simp add: dial_loop_failed[OF zero_less_Suc False Some] del: dial_loop.simps)
      with m(1) show ?thesis by (metis Suc_le_mono)
    qed
  qed
qed

text \<open>The first \<open>j\<close> dials fail and the next one succeeds.\<close>

lemma dial_loop_success_after:
  assumes "\<forall>i<j. \<not> o_ctxDone w i \<and> o_dial w i \<noteq> None" "\<not> o_ctxDone w j" "o_dial w j = None" "j < n"
  shows "\<exists>w' sh'. dial_loop n err w sh = (w', sh', Inr None) \<and>
     slept (trace w') = slept (trace w) + int j * (5 * second) \<and>
     dial_timeouts (trace w') = dial_timeouts (trace w) @ replicate (Suc j) (15 * second) \<and>
     conn sh' = Some (Conn (dialed w) False) \<and> cli sh' = cli sh \<and>
     o_handshake w' = o_handshake w \<and> o_stat w' = o_stat w"
  using assms
proof (induction j arbitrary: n err w sh)
  case 0
  then have "\<not> ohd (o_ctxDone w)" "ohd (o_dial w) = None" "0 < n"
    by (simp_all add: ohd_def)
  from dial_loop_first[OF this(3,1,2)] show ?case by (simp del: dial_loop.simps)
next
  case (Suc j)
  from Suc.prems(1) have f: "\<not> ohd (o_ctxDone w)" "ohd (o_dial w) \<noteq> None"
    by (auto simp: ohd_def)
  then obtain e where e: "ohd (o_dial w) = Some e" by auto
  let ?w = "w\<lparr>o_ctxDone := otl (o_ctxDone w), o_dial := otl (o_dial w),
           trace := trace w @ [Dial (PublicIP (cfg sh) @ '':22'') (15 * second)] @
             (case e of
                OpError m \<Rightarrow>
                  if Contains m ECONNREFUSED
                  then [Log Warn ''failed to dial (instance might not be ready yet)''] else []
              | _ \<Rightarrow> [Log Warn ''failed to dial'']) @
             [Sleep (5 * second)]\<rparr>"
  have n: "0 < n" "j < n - 1" using Suc.prems(4) by auto
  have "\<forall>i<j. \<not> o_ctxDone ?w i \<and> o_dial ?w i \<noteq> None" "\<not> o_ctxDone ?w j" "o_dial ?w j = None"
    using Suc.prems(1,2,3) by (auto simp: otl_apply)
  from Suc.IH[OF this n(2), of "Some e" "sh\<lparr>conn := None\<rparr>"]
  show ?case
    by (auto simp: dial_loop_failed[OF n(1) f(1) e] algebra_simps replicate_append_same
        simp del: dial_loop.simps)
qed

text \<open>All \<open>n\<close> dials fail.\<close>

lemma dial_loop_exhausted:
  assumes "\<forall>i<n. \<not> o_ctxDone w i \<and> o_dial w i \<noteq> None"
  shows "\<exists>w' sh'. dial_loop n err w sh = (w', sh', Inr (if n = 0 then err else o_dial w (n - 1))) \<and>
     slept (trace w') = slept (trace w) + int n * (5 * second) \<and>
     dial_timeouts (trace w') = dial_timeouts (trace w) @ replicate n (15 * second)"
  using assms
proof (induction n arbitrary: err w sh)
  case 0
  then show ?case by simp
next
  case (Suc n)
  from Suc.prems have f: "\<not> ohd (o_ctxDone w)" "ohd (o_dial w) \<noteq> None"
    by (auto simp: ohd_def)
  then obtain e where e: "ohd (o_dial w) = Some e" by auto
  let ?w = "w\<lparr>o_ctxDone := otl (o_ctxDone w), o_dial := otl (o_dial w),
           trace := trace w @ [Dial (PublicIP (cfg sh) @ '':22'') (15 * second)] @
             (case e of
                OpError m \<Rightarrow>
                  if Contains m ECONNREFUSED
                  then [Log Warn ''failed to dial (instance might not be ready yet)''] else []
              | _ \<Rightarrow> [Log Warn ''failed to dial'']) @
             [Sleep (5 * second)]\<rparr>"
  have "\<forall>i<n. \<not> o_ctxDone ?w i \<and> o_dial ?w i \<noteq> None"
    using Suc.prems by (auto simp: otl_apply)
  from Suc.IH[OF this, of "Some e" "sh\<lparr>conn := None\<rparr>"] e
  show ?case
    by (cases n)
      (auto simp: dial_loop_failed[OF zero_less_Suc f(1) e] algebra_simps replicate_append_same
        otl_apply ohd_def simp del: dial_loop.simps(2))
qed


lemma handshake_dial_timeouts:
  "dial_timeouts (trace (fst (handshake w sh))) = dial_timeouts (trace w)"
  by (simp add: handshake_def Let_def emit_def split: option.splits)

lemma handshake_slept:
  "slept (trace (fst (handshake w sh))) = slept (trace w)"
  by (simp add: handshake_def Let_def emit_def split: option.splits)

lemma handshake_accepts:
  "conn sh = Some c \<Longrightarrow> ohd (o_handshake w) = None \<Longrightarrow>
   handshake w sh =
     (w\<lparr>o_handshake := otl (o_handshake w),
         trace := trace w @ [Handshake (conn_id c), Log Info ''created client'']\<rparr>,
      sh\<lparr>cli := Some (Client (conn_id c))\<rparr>, Return None)"
  by (simp add: handshake_def Let_def emit_def)

lemma Connect_keyed:
  assumes "ohd (o_readFile w) = Inr k" "ohd (o_parseKey w) = None"
  shows "Connect w sh =
    (case dial_loop 15 None
            (w\<lparr>o_readFile := otl (o_readFile w), o_parseKey := otl (o_parseKey w),
                trace := trace w @ [Log Info ''dialing'']\<rparr>)
            (sh\<lparr>ctx := Some (Lifetime False), key := Some k, signer := Some k\<rparr>) of
       (w, sh, Inl e) \<Rightarrow> (w, sh, Return (Some e))
     | (w, sh, Inr (Some e)) \<Rightarrow> (w, sh, Return (Some e))
     | (w, sh, Inr None) \<Rightarrow> handshake (w\<lparr>trace := trace w @ [Log Info ''dialed'']\<rparr>) sh)"
  using assms by (simp add: Connect_def Let_def emit_def del: dial_loop.simps)

lemma Connect_bound:
  "\<exists>m\<le>15. dial_timeouts (trace (fst (Connect w sh))) =
      dial_timeouts (trace w) @ replicate m (15 * second)"
proof (cases "ohd (o_readFile w)")
  case (Inl e)
  then have "dial_timeouts (trace (fst (Connect w sh))) = dial_timeouts (trace w) @ replicate 0 (15 * second)"
    by (simp add: Connect_def Let_def)
  then show ?thesis by blast
next
  case (Inr k)
  show ?thesis
  proof (cases "ohd (o_parseKey w)")
    case (Some e)
    with Inr have "dial_timeouts (trace (fst (Connect w sh))) = dial_timeouts (trace w) @ replicate 0 (15 * second)"
      by (simp add: Connect_def Let_def)
    then show ?thesis by blast
  next
    case None
    let ?w = "w\<lparr>o_readFile := otl (o_readFile w), o_parseKey := otl (o_parseKey w),
                trace := trace w @ [Log Info ''dialing'']\<rparr>"
    let ?sh = "sh\<lparr>ctx := Some (Lifetime False), key := Some k, signer := Some k\<rparr>"
    obtain w1 sh1 r1 where d: "dial_loop 15 None ?w ?sh = (w1, sh1, r1)"
      by (cases "dial_loop 15 None ?w ?sh") auto
    from dial_loop_bound[of 15 None ?w ?sh] d obtain m where
      m: "m \<le> 15" "dial_timeouts (trace w1) = dial_timeouts (trace w) @ replicate m (15 * second)"
      by auto
    have "dial_timeouts (trace (fst (Connect w sh))) = dial_timeouts (trace w1)"
      by (simp add: Connect_keyed[OF Inr None] d handshake_dial_timeouts
          split: sum.splits option.splits del: dial_loop.simps)
    with m show ?thesis by auto
  qed
qed

lemma handshake_rejects:
  "conn sh = Some c \<Longrightarrow> ohd (o_handshake w) = Some e \<Longrightarrow> ohd (o_stat w) \<Longrightarrow>
   handshake w sh =
     (w\<lparr>o_handshake := otl (o_handshake w), o_stat := otl (o_stat w),
         trace := trace w @ [Handshake (conn_id c), Log Warn ''failed to connect'']\<rparr>,
      sh, Return (Some e))"
  by (simp add: handshake_def Let_def emit_def)

text \<open>The first \<open>j\<close> dials fail, the next one succeeds, and the handshake fails.\<close>

lemma Connect_rejected:
  assumes "ohd (o_readFile w) = Inr k" "ohd (o_parseKey w) = None"
    and "j < 15" "\<forall>i<j. \<not> o_ctxDone w i \<and> o_dial w i \<noteq> None" "\<not> o_ctxDone w j" "o_dial w j = None"
    and "ohd (o_handshake w) = Some e" "ohd (o_stat w)"
  shows "snd (snd (Connect w sh)) = Return (Some e) \<and>
     conn (fst (snd (Connect w sh))) = Some (Conn (dialed w) False) \<and>
     cli (fst (snd (Connect w sh))) = cli sh"
proof -
  let ?w = "w\<lparr>o_readFile := otl (o_readFile w), o_parseKey := otl (o_parseKey w),
              trace := trace w @ [Log Info ''dialing'']\<rparr>"
  let ?sh = "sh\<lparr>ctx := Some (Lifetime False), key := Some k, signer := Some k\<rparr>"
  from assms(4,5,6)
  have "\<forall>i<j. \<not> o_ctxDone ?w i \<and> o_dial ?w i \<noteq> None" "\<not> o_ctxDone ?w j" "o_dial ?w j = None"
    by simp_all
  from dial_loop_success_after[OF this assms(3), of None ?sh] obtain w1 sh1 where
    d: "dial_loop 15 None ?w ?sh = (w1, sh1, Inr None)"
      "conn sh1 = Some (Conn (dialed w) False)" "cli sh1 = cli sh"
      "o_handshake w1 = o_handshake w" "o_stat w1 = o_stat w"
    by auto
  from d(2,3,4,5) assms(7,8) show ?thesis
    by (simp add: Connect_keyed[OF assms(1,2)] d(1) handshake_rejects del: dial_loop.simps)
qed

lemma dial_loop_broke:
  "dial_loop n err w sh = (w', sh', Inr None) \<Longrightarrow>
     (n = 0 \<and> err = None) \<or> (\<exists>c. conn sh' = Some (Conn c False))"
proof (induction n arbitrary: err w sh)
  case 0
  then show ?case by simp
next
  case (Suc n)
  show ?case
  proof (cases "ohd (o_ctxDone w)")
    case True
    with Suc.prems show ?thesis by (simp add: dial_loop_stopped)
  next
    case False
    show ?thesis
    proof (cases "ohd (o_dial w)")
      case None
      with Suc.prems False show ?thesis
        by (auto simp: dial_loop_first[OF zero_less_Suc False None] simp del: dial_loop.simps)
    next
      case (Some e)
      from Suc.prems have "dial_loop n (Some e)
       (w\<lparr>o_ctxDone := otl (o_ctxDone w), o_dial := otl (o_dial w),
           trace := trace w @ [Dial (PublicIP (cfg sh) @ '':22'') (15 * second)] @
             (case e of
                OpError m \<Rightarrow>
                  if Contains m ECONNREFUSED
                  then [Log Warn ''failed to dial (instance might not be ready yet)''] else []
              | _ \<Rightarrow> [Log Warn ''failed to dial'']) @
             [Sleep (5 * second)]\<rparr>)
       (sh\<lparr>conn := None\<rparr>) = (w', sh', Inr None)"
        by (simp add: dial_loop_failed[OF zero_less_Suc False Some] del: dial_loop.simps)
      from Suc.IH[OF this] show ?thesis by simp
    qed
  qed
qed

lemma handshake_outcome:
  assumes "conn sh = Some (Conn c False)" "handshake w sh = (w', sh', r)"
  shows "(r = Return None \<longrightarrow> established sh') \<and> (r \<noteq> Return None \<longrightarrow> cli sh' = cli sh)"
  using assms
  by (auto simp: handshake_def Let_def established_def split: option.splits if_splits)

lemma Connect_outcome:
  assumes "Connect w sh = (w', sh', r)"
  shows "(r = Return None \<longrightarrow> established sh') \<and> (r \<noteq> Return None \<longrightarrow> cli sh' = cli sh)"
proof (cases "ohd (o_readFile w)")
  case (Inl e)
  with assms show ?thesis by (auto simp: Connect_def Let_def)
next
  case (Inr k)
  show ?thesis
  proof (cases "ohd (o_parseKey w)")
    case (Some e)
    with Inr assms show ?thesis by (auto simp: Connect_def Let_def)
  next
    case None
    let ?w = "w\<lparr>o_readFile := otl (o_readFile w), o_parseKey := otl (o_parseKey w),
                trace := trace w @ [Log Info ''dialing'']\<rparr>"
    let ?sh = "sh\<lparr>ctx := Some (Lifetime False), key := Some k, signer := Some k\<rparr>"
    obtain w1 sh1 r1 where d: "dial_loop 15 None ?w ?sh = (w1, sh1, r1)"
      by (cases "dial_loop 15 None ?w ?sh") auto
    from dial_loop_keeps[OF d] have c: "cli sh1 = cli sh" by simp
    show ?thesis
    proof (cases r1)
      case (Inl e)
      with assms c d show ?thesis
        by (auto simp: Connect_keyed[OF Inr None] simp del: dial_loop.simps)
    next
      case (Inr err)
      show ?thesis
      proof (cases err)
        case (Some e)
        with Inr assms c d show ?thesis
          by (auto simp: Connect_keyed[OF \<open>ohd (o_readFile w) = Inr k\<close> None] simp del: dial_loop.simps)
      next
        case None
        with Inr d have b: "dial_loop 15 None ?w ?sh = (w1, sh1, Inr None)" by simp
        from dial_loop_broke[OF b] obtain cn where cn: "conn sh1 = Some (Conn cn False)"
          by auto
        from assms b have "handshake (w1\<lparr>trace := trace w1 @ [Log Info ''dialed'']\<rparr>) sh1 = (w', sh', r)"
          by (simp add: Connect_keyed[OF \<open>ohd (o_readFile w) = Inr k\<close> \<open>ohd (o_parseKey w) = None\<close>]
              del: dial_loop.simps)
        from handshake_outcome[OF cn this] c show ?thesis by simp
      qed
    qed
  qed
qed

text \<open>
  Claim C4, as the code has it. Once the key is read and parsed, \<open>Connect\<close>
  dials at most 15 times, each time with a timeout of fifteen seconds, and
  sleeps five seconds after every dial that fails, whatever its error. When all
  15 dials fail it returns the error of the last one. When the first \<open>j\<close> dials
  fail (\<open>j < 15\<close>), the next one succeeds and the handshake that follows
  succeeds, it returns no error, having slept \<open>j\<close> times five seconds; with
  \<open>j = 3\<close> these are the 3 times 5 seconds of the claim.
\<close>

theorem Connect_dial_loop:
  assumes "ohd (o_readFile w) = Inr k" and "ohd (o_parseKey w) = None"
  shows "(\<exists>m\<le>15. dial_timeouts (trace (fst (Connect w sh))) =
            dial_timeouts (trace w) @ replicate m (15 * second)) \<and>
    ((\<forall>i<15. \<not> o_ctxDone w i \<and> o_dial w i \<noteq> None) \<longrightarrow>
       snd (snd (Connect w sh)) = Return (o_dial w 14) \<and>
       slept (trace (fst (Connect w sh))) = slept (trace w) + 15 * (5 * second) \<and>
       dial_timeouts (trace (fst (Connect w sh))) = dial_timeouts (trace w) @ replicate 15 (15 * second)) \<and>
    (j < 15 \<and> (\<forall>i<j. \<not> o_ctxDone w i \<and> o_dial w i \<noteq> None) \<and> \<not> o_ctxDone w j \<and> o_dial w j = None \<and>
       ohd (o_handshake w) = None \<longrightarrow>
       snd (snd (Connect w sh)) = Return None \<and>
       slept (trace (fst (Connect w sh))) = slept (trace w) + int j * (5 * second) \<and>
       dial_timeouts (trace (fst (Connect w sh))) =
         dial_timeouts (trace w) @ replicate (Suc j) (15 * second))"
proof -
  let ?w = "w\<lparr>o_readFile := otl (o_readFile w), o_parseKey := otl (o_parseKey w),
              trace := trace w @ [Log Info ''dialing'']\<rparr>"
  let ?sh = "sh\<lparr>ctx := Some (Lifetime False), key := Some k, signer := Some k\<rparr>"
  have all: "snd (snd (Connect w sh)) = Return (o_dial w 14) \<and>
       slept (trace (fst (Connect w sh))) = slept (trace w) + 15 * (5 * second) \<and>
       dial_timeouts (trace (fst (Connect w sh))) = dial_timeouts (trace w) @ replicate 15 (15 * second)"
    if f: "\<forall>i<15. \<not> o_ctxDone w i \<and> o_dial w i \<noteq> None"
  proof -
    from f have "\<forall>i<15. \<not> o_ctxDone ?w i \<and> o_dial ?w i \<noteq> None" by simp
    from dial_loop_exhausted[OF this, of None ?sh] obtain w1 sh1 where
      d: "dial_loop 15 None ?w ?sh = (w1, sh1, Inr (o_dial w 14))"
        "slept (trace w1) = slept (trace w) + 15 * (5 * second)"
        "dial_timeouts (trace w1) = dial_timeouts (trace w) @ replicate 15 (15 * second)"
      by auto
    from f obtain e where "o_dial w 14 = Some e" by fastforce
    with d show ?thesis
      by (simp add: Connect_keyed[OF assms] del: dial_loop.simps)
  qed
  have some: "snd (snd (Connect w sh)) = Return None \<and>
       slept (trace (fst (Connect w sh))) = slept (trace w) + int j * (5 * second) \<and>
       dial_timeouts (trace (fst (Connect w sh))) =
         dial_timeouts (trace w) @ replicate (Suc j) (15 * second)"
    if j: "j < 15" and f: "\<forall>i<j. \<not> o_ctxDone w i \<and> o_dial w i \<noteq> None"
      and s: "\<not> o_ctxDone w j" "o_dial w j = None" and h: "ohd (o_handshake w) = None"
  proof -
    from f s have "\<forall>i<j. \<not> o_ctxDone ?w i \<and> o_dial ?w i \<noteq> None" "\<not> o_ctxDone ?w j" "o_dial ?w j = None"
      by simp_all
    from dial_loop_success_after[OF this j, of None ?sh] obtain w1 sh1 where
      d: "dial_loop 15 None ?w ?sh = (w1, sh1, Inr None)"
        "slept (trace w1) = slept (trace w) + int j * (5 * second)"
        "dial_timeouts (trace w1) = dial_timeouts (trace w) @ replicate (Suc j) (15 * second)"
        "conn sh1 = Some (Conn (dialed w) False)" "o_handshake w1 = o_handshake w"
      by auto
    from d(4,5) h show ?thesis
      by (simp add: Connect_keyed[OF assms] d(1,2,3) handshake_accepts del: dial_loop.simps replicate.simps)
  qed
  from Connect_bound all some show ?thesis by blast
qed


theorem Connect_dial_loop_counterexample:
  "o_dial refusing_rejecting 0 = Some refused \<and> o_dial refusing_rejecting 1 = Some refused \<and>
   o_dial refusing_rejecting 2 = Some refused \<and> o_dial refusing_rejecting 3 = None \<and>
   snd (snd (Connect refusing_rejecting (New host))) = Return (Some (Error ''ssh: handshake failed''))"
proof -
  have d: "o_dial refusing_rejecting 0 = Some refused" "o_dial refusing_rejecting 1 = Some refused"
   "o_dial refusing_rejecting 2 = Some refused" "o_dial refusing_rejecting 3 = None"
    by (simp_all add: refusing_rejecting_def refusing_def calm_def numeral_3_eq_3 numeral_2_eq_2)
  have a: "\<forall>i<3. \<not> o_ctxDone refusing_rejecting i \<and> o_dial refusing_rejecting i \<noteq> None"
    by (auto simp: refusing_rejecting_def refusing_def calm_def less_Suc_eq numeral_3_eq_3)
  have b: "\<not> o_ctxDone refusing_rejecting 3"
    by (simp add: refusing_rejecting_def refusing_def calm_def)
  have k: "ohd (o_readFile refusing_rejecting) = Inr ''PRIVATE KEY''" "ohd (o_parseKey refusing_rejecting) = None"
    "ohd (o_handshake refusing_rejecting) = Some (Error ''ssh: handshake failed'')"
    "ohd (o_stat refusing_rejecting)"
    by (simp_all add: refusing_rejecting_def refusing_def calm_def)
  from Connect_rejected[OF k(1,2) _ a b d(4) k(3,4), of "New host"] d show ?thesis by simp
qed

theorem Connect_dial_loop_witness:
  "ohd (o_readFile refusing) = Inr ''PRIVATE KEY'' \<and> ohd (o_parseKey refusing) = None \<and>
   o_dial refusing 0 = Some refused \<and> o_dial refusing 1 = Some refused \<and>
   o_dial refusing 2 = Some refused \<and> o_dial refusing 3 = None \<and>
   ohd (o_handshake refusing) = None \<and>
   snd (snd (Connect refusing (New host))) = Return None \<and>
   slept (trace (fst (Connect refusing (New host)))) = 3 * (5 * second) \<and>
   dial_timeouts (trace (fst (Connect refusing (New host)))) = replicate 4 (15 * second) \<and>
   snd (snd (Connect unreachable (New host))) = Return (Some refused) \<and>
   slept (trace (fst (Connect unreachable (New host)))) = 15 * (5 * second) \<and>
   dial_timeouts (trace (fst (Connect unreachable (New host)))) = replicate 15 (15 * second)"
proof -
  have d: "o_dial refusing 0 = Some refused" "o_dial refusing 1 = Some refused"
   "o_dial refusing 2 = Some refused" "o_dial refusing 3 = None"
    by (simp_all add: refusing_def calm_def numeral_3_eq_3 numeral_2_eq_2)
  have a: "\<forall>i<3. \<not> o_ctxDone refusing i \<and> o_dial refusing i \<noteq> None"
    by (auto simp: refusing_def calm_def less_Suc_eq numeral_3_eq_3)
  have b: "\<not> o_ctxDone refusing 3"
    by (simp add: refusing_def calm_def)
  have k: "ohd (o_readFile refusing) = Inr ''PRIVATE KEY''" "ohd (o_parseKey refusing) = None"
    "ohd (o_handshake refusing) = None" "trace refusing = []"
    by (simp_all add: refusing_def calm_def)
  have u: "ohd (o_readFile unreachable) = Inr ''PRIVATE KEY''" "ohd (o_parseKey unreachable) = None"
    "\<forall>i<15. \<not> o_ctxDone unreachable i \<and> o_dial unreachable i \<noteq> None" "trace unreachable = []"
    "o_dial unreachable 14 = Some refused"
    by (simp_all add: unreachable_def calm_def)
  have h3: "(3::nat) < 15 \<and> (\<forall>i<3. \<not> o_ctxDone refusing i \<and> o_dial refusing i \<noteq> None) \<and>
      \<not> o_ctxDone refusing 3 \<and> o_dial refusing 3 = None \<and> ohd (o_handshake refusing) = None"
    using a b d(4) k(3) by simp
  from Connect_dial_loop[OF k(1,2), of "New host" 3, THEN conjunct2, THEN conjunct2, THEN mp, OF h3]
  have 1: "snd (snd (Connect refusing (New host))) = Return None"
    "slept (trace (fst (Connect refusing (New host)))) = 3 * (5 * second)"
    "dial_timeouts (trace (fst (Connect refusing (New host)))) = replicate 4 (15 * second)"
    by (simp_all add: k(4) del: replicate.simps)
  from Connect_dial_loop[OF u(1,2), of "New host" 0, THEN conjunct2, THEN conjunct1, THEN mp, OF u(3)]
  have 2: "snd (snd (Connect unreachable (New host))) = Return (Some refused)"
   "slept (trace (fst (Connect unreachable (New host)))) = 15 * (5 * second)"
   "dial_timeouts (trace (fst (Connect unreachable (New host)))) = replicate 15 (15 * second)"
    by (simp_all add: u(4,5) del: replicate.simps)
  from d k(1,2,3) 1 2 show ?thesis by simp
qed

text \<open>
  Claim C8, as the code has it. After a \<open>Connect\<close> that returns no error the
  channel is established: the client stores an open dialed connection and a
  client handle handshaked over that connection. A \<open>Connect\<close> that does not
  return nil leaves the stored client handle as it was; the stored connection
  it may have replaced, so that after a failed handshake the client holds a
  dialed connection without a completed handshake.
\<close>

theorem Connect_leaves_channel:
  "(snd (snd (Connect w sh)) = Return None \<longrightarrow> established (fst (snd (Connect w sh)))) \<and>
   (snd (snd (Connect w sh)) \<noteq> Return None \<longrightarrow> cli (fst (snd (Connect w sh))) = cli sh)"
  using Connect_outcome[of w sh "fst (Connect w sh)" "fst (snd (Connect w sh))" "snd (snd (Connect w sh))"]
  by simp

theorem Connect_leaves_channel_counterexample:
  "snd (snd (Connect rejecting (New host))) = Return (Some (Error ''ssh: handshake failed'')) \<and>
   conn (fst (snd (Connect rejecting (New host)))) = Some (Conn 1 False) \<and>
   cli (fst (snd (Connect rejecting (New host)))) = None \<and>
   \<not> absent (fst (snd (Connect rejecting (New host)))) \<and>
   \<not> established (fst (snd (Connect rejecting (New host))))"
proof -
  have k: "ohd (o_readFile rejecting) = Inr ''PRIVATE KEY''" "ohd (o_parseKey rejecting) = None"
    "\<forall>i<0. \<not> o_ctxDone rejecting i \<and> o_dial rejecting i \<noteq> None"
    "\<not> o_ctxDone rejecting 0" "o_dial rejecting 0 = None"
    "ohd (o_handshake rejecting) = Some (Error ''ssh: handshake failed'')" "ohd (o_stat rejecting)"
    "dialed rejecting = 1"
    by (simp_all add: rejecting_def calm_def)
  from Connect_rejected[OF k(1,2) _ k(3,4,5,6,7), of "New host"] k(8)
  show ?thesis by (simp add: absent_def established_def New_def)
qed

theorem Connect_leaves_channel_witness:
  "snd (snd (Connect calm (New host))) = Return None \<and>
   established (fst (snd (Connect calm (New host)))) \<and>
   snd (snd (Connect rejecting connected)) \<noteq> Return None \<and>
   cli (fst (snd (Connect rejecting connected))) = Some (Client 0)"
proof -
  have c: "ohd (o_readFile calm) = Inr ''PRIVATE KEY''" "ohd (o_parseKey calm) = None"
    "\<not> ohd (o_ctxDone calm)" "ohd (o_dial calm) = None" "ohd (o_handshake calm) = None"
    by (simp_all add: calm_def)
  have 1: "snd (snd (Connect calm (New host))) = Return None"
    by (simp add: Connect_first[OF c])
  have k: "ohd (o_readFile rejecting) = Inr ''PRIVATE KEY''" "ohd (o_parseKey rejecting) = None"
    "\<forall>i<0. \<not> o_ctxDone rejecting i \<and> o_dial rejecting i \<noteq> None"
    "\<not> o_ctxDone rejecting 0" "o_dial rejecting 0 = None"
    "ohd (o_handshake rejecting) = Some (Error ''ssh: handshake failed'')" "ohd (o_stat rejecting)"
    by (simp_all add: rejecting_def calm_def)
  from Connect_rejected[OF k(1,2) _ k(3,4,5,6,7), of connected]
  have 2: "snd (snd (Connect rejecting connected)) \<noteq> Return None" by simp
  from Connect_leaves_channel[of calm "New host"] Connect_leaves_channel[of rejecting connected] 1 2
  show ?thesis by (simp add: connected_def)
qed

subsection \<open>The end of the retry recursion\<close>

lemma always_ohd: "always P f \<Longrightarrow> P (ohd f)"
  by (simp add: always_def ohd_def)

lemma always_otl: "always P f \<Longrightarrow> always P (otl f)"
  by (simp add: always_def otl_def)

lemma dependable_trace [simp]: "dependable (w\<lparr>trace := t\<rparr>) = dependable w"
  by (simp add: dependable_def)

lemma dependable_emit [simp]: "dependable (emit e w) = dependable w"
  by (simp add: emit_def)

lemma select_decided: "select (Some t) cd tie \<noteq> Blocked"
  by (cases cd) (auto split: if_splits)

lemma Connect_dependable:
  assumes "dependable w"
  shows "\<exists>w' sh'. Connect w sh = (w', sh', Return None) \<and> dependable w' \<and>
     cfg sh' = cfg sh \<and> retries sh' = retries sh"
proof -
  from assms have "\<not> isl (ohd (o_readFile w))" "ohd (o_parseKey w) = None" "\<not> ohd (o_ctxDone w)"
    "ohd (o_dial w) = None" "ohd (o_handshake w) = None"
    by (auto simp: dependable_def dest: always_ohd)
  then obtain k where k: "ohd (o_readFile w) = Inr k" "ohd (o_parseKey w) = None" "\<not> ohd (o_ctxDone w)"
    "ohd (o_dial w) = None" "ohd (o_handshake w) = None"
    by (cases "ohd (o_readFile w)") auto
  from assms show ?thesis
    by (simp add: Connect_first[OF k] dependable_def always_otl)
qed

lemma reconnect_dependable:
  assumes "dependable w"
  shows "\<exists>w' sh'. reconnect w sh k = Some (w', sh', Return ()) \<and> dependable w' \<and>
     cfg sh' = cfg sh \<and> retries sh' = (retries sh)(k \<mapsto> budget sh k - 1)"
proof -
  from Connect_dependable[OF assms, of "decrement k sh"] obtain w' sh' where
    "Connect w (decrement k sh) = (w', sh', Return None)" "dependable w'"
    "cfg sh' = cfg sh" "retries sh' = (retries sh)(k \<mapsto> budget sh k - 1)"
    by (auto simp: decrement_def)
  then show ?thesis
    by (subst reconnect.simps) simp
qed

lemma Close_dependable:
  "Close w sh = (w', sh', r) \<Longrightarrow> dependable w' = dependable w"
  by (auto simp: Close_def Let_def split: option.splits)

lemma recover_dependable:
  assumes "dependable w"
  shows "(\<exists>w' sh' p. recover w sh k ret = Some (w', sh', Panic p)) \<or>
     (\<exists>w' sh'. recover w sh k ret = Some (w', sh', Return ()) \<and> dependable w' \<and>
        cfg sh' = cfg sh \<and> retries sh' = (retries sh)(k \<mapsto> budget sh k - 1))"
proof -
  obtain w1 sh1 r1 where c: "Close (emit (Log Warn ''retrying'') w) sh = (w1, sh1, r1)"
    by (cases "Close (emit (Log Warn ''retrying'') w) sh") auto
  from Close_dependable[OF c] Close_keeps[OF c] assms
  have d: "dependable w1" "cfg sh1 = cfg sh" "retries sh1 = retries sh" by auto
  show ?thesis
  proof (cases r1)
    case (Panic p)
    with c show ?thesis by (simp add: recover_def)
  next
    case (Return u)
    from reconnect_dependable[OF d(1), of sh1 k] obtain w' sh' where
      "reconnect w1 sh1 k = Some (w', sh', Return ())" "dependable w'"
      "cfg sh' = cfg sh1" "retries sh' = (retries sh1)(k \<mapsto> budget sh1 k - 1)"
      by blast
    with Return c d show ?thesis
      by (simp add: recover_def budget_def)
  qed
qed

lemma setenvs_dependable [simp]: "dependable (fst (setenvs kvs w)) = dependable w"
  by (induction kvs w rule: setenvs.induct)
    (simp_all add: Let_def dependable_def emit_def split: option.splits)

lemma open_session_dependable:
  "dependable (fst (open_session w sh ret)) = dependable w"
proof -
  have s: "dependable w1 = dependable w0" if "setenvs kvs w0 = (w1, r)" for kvs w0 w1 r
    using setenvs_dependable[of kvs w0] that by simp
  have n: "dependable (w0\<lparr>o_newSession := x\<rparr>) = dependable w0" for w0 x
    by (simp add: dependable_def)
  show ?thesis
    by (auto simp: open_session_def Let_def n split: option.splits prod.splits dest!: s)
qed

lemma execute_dependable:
  assumes "dependable w"
  shows "\<exists>w' sh' a. execute w sh cmd ret = Some (w', sh', a) \<and> dependable w'"
proof (cases "ctx sh")
  case None
  with assms show ?thesis by (simp add: execute_def)
next
  case (Some l)
  from assms have "task_done (ohd (o_exec w)) \<noteq> None"
    by (auto simp: dependable_def dest: always_ohd)
  then obtain t where t: "task_done (ohd (o_exec w)) = Some t" by auto
  have d: "dependable (w\<lparr>o_exec := otl (o_exec w)\<rparr>)"
    using assms by (simp add: dependable_def always_otl)
  have e: "dependable (w0\<lparr>o_exec := x\<rparr>) = dependable (w0'\<lparr>o_exec := x\<rparr>)"
    if "w0' = w0\<lparr>trace := tr\<rparr>" for w0 w0' x tr
    using that by (simp add: dependable_def)
  from select_decided[of t] d show ?thesis
    by (auto simp: execute_def Some t Let_def emit_def dependable_def split: selected.splits)
qed

lemma run_attempt_dependable:
  assumes "dependable w"
  shows "\<exists>w' sh' a. run_attempt w sh cmd ret = Some (w', sh', a) \<and> dependable w'"
proof -
  obtain w1 r1 where o: "open_session w sh ret = (w1, r1)"
    by (cases "open_session w sh ret") auto
  with open_session_dependable[of w sh ret] assms have d: "dependable w1" by simp
  from execute_dependable[OF d, of sh cmd ret] o d show ?thesis
    by (auto simp: run_attempt_def split: exit.splits option.splits)
qed

lemma scp_attempt_dependable:
  assumes "dependable w"
  shows "\<exists>w' sh' a. scp_attempt dir w sh lp rp ret = Some (w', sh', a) \<and> dependable w'"
proof (cases "ctx sh")
  case None
  with assms show ?thesis by (simp add: scp_attempt_def)
next
  case (Some l)
  obtain w1 r1 where p: "scp_prepare w sh = (w1, r1)"
    by (cases "scp_prepare w sh") auto
  have d: "dependable w1"
    using p assms
    by (auto simp: scp_prepare_def Let_def emit_def dependable_def split: sum.splits option.splits)
  show ?thesis
  proof (cases r1)
    case (Inl e)
    with p d Some show ?thesis by (simp add: scp_attempt_def)
  next
    case (Inr path)
    from d have "task_done (ohd (o_scp w1)) \<noteq> None"
      by (auto simp: dependable_def dest: always_ohd)
    then obtain t where t: "task_done (ohd (o_scp w1)) = Some t" by auto
    have l: "dependable (scp_log dir ret w0) = dependable w0" for w0
      by (simp add: scp_log_def Let_def dependable_def emit_def)
    have "dependable ((emit (Scp (scp_args dir sh path lp rp)) w1)\<lparr>o_scp := otl (o_scp w1)\<rparr>)"
      using d by (simp add: dependable_def always_otl emit_def)
    then have dd: "dependable (scp_log dir ret (emit CancelCall
        ((emit (Scp (scp_args dir sh path lp rp)) w1)\<lparr>o_scp := otl (o_scp w1)\<rparr>)))"
      by (simp add: l)
    have o: "o_scp (emit ev w1) = o_scp w1" for ev
      by (simp add: emit_def)
    have "\<exists>w' sh' a. scp_execute dir w1 sh (call_context l ret)
         (scp_args dir sh path lp rp) ret = Some (w', sh', a) \<and> dependable w'"
      using select_decided[of t "ctx_done (call_context l ret) (life_cancel (ohd (o_scp w1)))"
          "ctx_wins_tie (ohd (o_scp w1))"] dd
      by (cases "select (Some t) (ctx_done (call_context l ret) (life_cancel (ohd (o_scp w1))))
          (ctx_wins_tie (ohd (o_scp w1)))") (simp_all add: scp_execute_def Let_def t o)
    with p Inr Some show ?thesis by (simp add: scp_attempt_def)
  qed
qed


lemma failure_protocol_returns:
  assumes "a = Some (w1, sh1, x)" "dependable w1"
    and "\<And>w2 sh2. dependable w2 \<Longrightarrow> cfg sh2 = cfg sh1 \<Longrightarrow>
           retries sh2 = (retries sh1)(k \<mapsto> budget sh1 k - 1) \<Longrightarrow> budget sh1 k \<noteq> 0 \<Longrightarrow>
           \<exists>y. again w2 sh2 = Some y"
  shows "\<exists>y. failure_protocol again k ret a = Some y"
proof (cases x)
  case (Finished out err)
  show ?thesis
  proof (cases err)
    case None
    with Finished assms(1) show ?thesis by (simp add: failure_protocol_def)
  next
    case (Some e)
    show ?thesis
    proof (cases "budget sh1 k = 0")
      case True
      with Some Finished assms(1) show ?thesis by (simp add: failure_protocol_def)
    next
      case False
      from recover_dependable[of "emit (Log Warn ''command failed'') w1" sh1 k ret] assms(2)
      consider w' sh' p where "recover (emit (Log Warn ''command failed'') w1) sh1 k ret = Some (w', sh', Panic p)"
        | w' sh' where "recover (emit (Log Warn ''command failed'') w1) sh1 k ret = Some (w', sh', Return ())"
          "dependable w'" "cfg sh' = cfg sh1" "retries sh' = (retries sh1)(k \<mapsto> budget sh1 k - 1)"
        by auto
      then show ?thesis
      proof cases
        case 1
        with False Some Finished assms(1) show ?thesis by (simp add: failure_protocol_def)
      next
        case 2
        from assms(3)[OF 2(2,3,4) False] obtain y where "again w' sh' = Some y" by blast
        with 2(1) False Some Finished assms(1) show ?thesis
          by (simp add: failure_protocol_def del: split_paired_Ex)
      qed
    qed
  qed
qed (use assms(1) in \<open>simp_all add: failure_protocol_def\<close>)

lemma budget_falls: "b \<noteq> 0 \<Longrightarrow> unat (b - 1) < unat b" for b :: "64 word"
  by (simp add: unat_minus_one unat_gt_0)

lemma Run_returns:
  "dependable w \<Longrightarrow> \<exists>y. Run w sh cmd ret = Some y"
proof (induction "unat (budget (seed (PublicDNSName (cfg sh) @ cmd) (op_retries ret) sh)
    (PublicDNSName (cfg sh) @ cmd))" arbitrary: w sh rule: less_induct)
  case less
  let ?k = "PublicDNSName (cfg sh) @ cmd"
  let ?sh = "seed ?k (op_retries ret) sh"
  from run_attempt_dependable[OF less.prems, of ?sh cmd ret] obtain w1 sh1 x where
    a: "run_attempt w ?sh cmd ret = Some (w1, sh1, x)" "dependable w1"
    by blast
  from run_attempt_keeps[OF a(1)] have k: "cfg sh1 = cfg sh" "retries sh1 = retries ?sh"
    by simp_all
  have "\<exists>y. failure_protocol (\<lambda>w sh. Run w sh cmd ret) ?k ret (run_attempt w ?sh cmd ret) = Some y"
  proof (rule failure_protocol_returns[OF a], goal_cases)
    case (1 w2 sh2)
    from 1(2,3) k have c: "PublicDNSName (cfg sh2) @ cmd = ?k" "retries sh2 ?k = Some (budget sh1 ?k - 1)"
      by simp_all
    then have "budget (seed ?k (op_retries ret) sh2) ?k = budget sh1 ?k - 1"
      by (simp add: seed_def budget_def)
    moreover have "budget sh1 ?k = budget ?sh ?k"
      using k(2) by (simp add: budget_def)
    ultimately have "unat (budget (seed (PublicDNSName (cfg sh2) @ cmd) (op_retries ret) sh2)
        (PublicDNSName (cfg sh2) @ cmd)) < unat (budget ?sh ?k)"
      using budget_falls[OF 1(4)] c(1) by simp
    from less.hyps[OF this 1(1)] show ?case .
  qed
  then show ?case by (subst Run_protocol)
qed

lemma transfer_returns:
  "dependable w \<Longrightarrow> \<exists>y. transfer dir w sh lp rp ret = Some y"
proof (induction "unat (budget (seed (PublicDNSName (cfg sh) @ lp) (op_retries ret) sh)
    (PublicDNSName (cfg sh) @ lp))" arbitrary: w sh rule: less_induct)
  case less
  let ?k = "PublicDNSName (cfg sh) @ lp"
  let ?sh = "seed ?k (op_retries ret) sh"
  from scp_attempt_dependable[OF less.prems, of dir ?sh lp rp ret] obtain w1 sh1 x where
    a: "scp_attempt dir w ?sh lp rp ret = Some (w1, sh1, x)" "dependable w1"
    by blast
  from scp_attempt_keeps[OF a(1)] have k: "cfg sh1 = cfg sh" "retries sh1 = retries ?sh"
    by simp_all
  have "\<exists>y. failure_protocol (\<lambda>w sh. transfer dir w sh lp rp ret) ?k ret
      (scp_attempt dir w ?sh lp rp ret) = Some y"
  proof (rule failure_protocol_returns[OF a], goal_cases)
    case (1 w2 sh2)
    from 1(2,3) k have c: "PublicDNSName (cfg sh2) @ lp = ?k" "retries sh2 ?k = Some (budget sh1 ?k - 1)"
      by simp_all
    then have "budget (seed ?k (op_retries ret) sh2) ?k = budget sh1 ?k - 1"
      by (simp add: seed_def budget_def)
    moreover have "budget sh1 ?k = budget ?sh ?k"
      using k(2) by (simp add: budget_def)
    ultimately have "unat (budget (seed (PublicDNSName (cfg sh2) @ lp) (op_retries ret) sh2)
        (PublicDNSName (cfg sh2) @ lp)) < unat (budget ?sh ?k)"
      using budget_falls[OF 1(4)] c(1) by simp
    from less.hyps[OF this 1(1)] show ?case .
  qed
  then show ?case by (subst transfer_protocol)
qed


lemma Connect_first_rejected:
  assumes "ohd (o_readFile w) = Inr k" "ohd (o_parseKey w) = None" "\<not> ohd (o_ctxDone w)"
    "ohd (o_dial w) = None" "ohd (o_handshake w) = Some e" "ohd (o_stat w)"
  shows "Connect w sh =
     (w\<lparr>o_readFile := otl (o_readFile w), o_parseKey := otl (o_parseKey w),
         o_ctxDone := otl (o_ctxDone w), o_dial := otl (o_dial w),
         o_handshake := otl (o_handshake w), o_stat := otl (o_stat w), dialed := Suc (dialed w),
         trace := trace w @ [Log Info ''dialing'', Dial (PublicIP (cfg sh) @ '':22'') (15 * second),
           Log Info ''dialed'', Handshake (dialed w), Log Warn ''failed to connect'']\<rparr>,
      sh\<lparr>key := Some k, signer := Some k, ctx := Some (Lifetime False),
         conn := Some (Conn (dialed w) False)\<rparr>, Return (Some e))"
  using assms by (simp add: Connect_def Let_def emit_def dial_loop_first handshake_def)

lemma treads_heads:
  assumes "treads w"
  shows "ohd (o_readFile w) = Inr ''PRIVATE KEY''" "ohd (o_parseKey w) = None" "\<not> ohd (o_ctxDone w)"
    "ohd (o_dial w) = None" "ohd (o_handshake w) = Some (Error ''ssh: handshake failed'')"
    "ohd (o_stat w)" "ohd (o_newSession w) = None" "ohd (o_exec w) = breaks"
  using assms by (simp_all add: treads_def treadmill_def calm_def)

lemma treads_tails:
  assumes "treads w"
  shows "otl (o_readFile w) = o_readFile w" "otl (o_parseKey w) = o_parseKey w"
    "otl (o_ctxDone w) = o_ctxDone w" "otl (o_dial w) = o_dial w" "otl (o_stat w) = o_stat w"
    "otl (o_newSession w) = o_newSession w" "otl (o_exec w) = o_exec w"
    "otl (otl (o_handshake w)) = o_handshake w"
    "ohd (otl (o_handshake w)) = None"
  using assms by (simp_all add: treads_def treadmill_def calm_def)

lemma treads_update [simp]:
  "treads (w\<lparr>trace := t\<rparr>) = treads w" "treads (w\<lparr>dialed := d\<rparr>) = treads w"
  "treads (emit ev w) = treads w"
  by (simp_all add: treads_def emit_def)

text \<open>On the mill a reconnect takes two calls of \<open>Connect\<close> and two from the budget.\<close>

lemma reconnect_on_mill:
  assumes "treads w" "cfg sh = host"
  shows "\<exists>w' sh'. reconnect w sh k = Some (w', sh', Return ()) \<and> treads w' \<and> cfg sh' = host \<and>
     ctx sh' = Some (Lifetime False) \<and> conn sh' \<noteq> None \<and> cli sh' \<noteq> None \<and>
     retries sh' = (retries sh)(k \<mapsto> budget sh k - 2)"
proof -
  note h = treads_heads[OF assms(1)] and t = treads_tails[OF assms(1)]
  let ?w1 = "w\<lparr>o_readFile := otl (o_readFile w), o_parseKey := otl (o_parseKey w),
         o_ctxDone := otl (o_ctxDone w), o_dial := otl (o_dial w),
         o_handshake := otl (o_handshake w), o_stat := otl (o_stat w), dialed := Suc (dialed w),
         trace := trace w @ [Log Info ''dialing'', Dial (PublicIP (cfg (decrement k sh)) @ '':22'') (15 * second),
           Log Info ''dialed'', Handshake (dialed w), Log Warn ''failed to connect'']\<rparr>"
  let ?sh1 = "(decrement k sh)\<lparr>key := Some ''PRIVATE KEY'', signer := Some ''PRIVATE KEY'',
         ctx := Some (Lifetime False), conn := Some (Conn (dialed w) False)\<rparr>"
  have c1: "Connect w (decrement k sh) = (?w1, ?sh1, Return (Some (Error ''ssh: handshake failed'')))"
    by (rule Connect_first_rejected[OF h(1,2,3,4,5,6)])
  have h1: "ohd (o_readFile ?w1) = Inr ''PRIVATE KEY''" "ohd (o_parseKey ?w1) = None"
    "\<not> ohd (o_ctxDone ?w1)" "ohd (o_dial ?w1) = None" "ohd (o_handshake ?w1) = None"
    using h t by simp_all
  let ?w2 = "?w1\<lparr>o_readFile := otl (o_readFile ?w1), o_parseKey := otl (o_parseKey ?w1),
         o_ctxDone := otl (o_ctxDone ?w1), o_dial := otl (o_dial ?w1),
         o_handshake := otl (o_handshake ?w1), dialed := Suc (dialed ?w1),
         trace := trace ?w1 @ [Log Info ''dialing'', Dial (PublicIP (cfg (decrement k ?sh1)) @ '':22'') (15 * second),
           Log Info ''dialed'', Handshake (dialed ?w1), Log Info ''created client'']\<rparr>"
  let ?sh2 = "(decrement k ?sh1)\<lparr>key := Some ''PRIVATE KEY'', signer := Some ''PRIVATE KEY'',
         ctx := Some (Lifetime False), conn := Some (Conn (dialed ?w1) False),
         cli := Some (Client (dialed ?w1))\<rparr>"
  have c2: "Connect ?w1 (decrement k ?sh1) = (?w2, ?sh2, Return None)"
    by (rule Connect_first[OF h1])
  have r2: "reconnect ?w1 ?sh1 k = Some (?w2, ?sh2, Return ())"
    by (subst reconnect.simps) (simp add: c2)
  have r1: "reconnect w sh k = Some (?w2, ?sh2, Return ())"
    by (subst reconnect.simps) (simp add: c1 r2)
  have "treads ?w2"
    using assms(1) t by (simp add: treads_def)
  moreover have "retries ?sh2 = (retries sh)(k \<mapsto> budget sh k - 2)"
    by (simp add: decrement_def budget_def)
  ultimately show ?thesis
    using r1 assms(2) by (simp add: decrement_def)
qed

lemma recover_on_mill:
  assumes "treads w" "cfg sh = host" "ctx sh = Some l" "conn sh = Some c"
  shows "\<exists>w' sh'. recover w sh k ret = Some (w', sh', Return ()) \<and> treads w' \<and> cfg sh' = host \<and>
     ctx sh' = Some (Lifetime False) \<and> conn sh' \<noteq> None \<and> cli sh' \<noteq> None \<and>
     retries sh' = (retries sh)(k \<mapsto> budget sh k - 2)"
proof -
  let ?w1 = "emit (Log Info ''closed connection'') (emit (CloseConn (conn_id c))
     (emit CancelLifetime (emit (Log Warn ''retrying'') w)))"
  let ?sh1 = "sh\<lparr>ctx := Some (Lifetime True), conn := Some (Conn (conn_id c) True)\<rparr>"
  have c: "Close (emit (Log Warn ''retrying'') w) sh = (?w1, ?sh1, Return ())"
    using assms(3,4) by (simp add: Close_def Let_def)
  from reconnect_on_mill[of ?w1 ?sh1 k] assms(1,2) obtain w' sh' where
    r: "reconnect ?w1 ?sh1 k = Some (w', sh', Return ())" "treads w'" "cfg sh' = host"
     "ctx sh' = Some (Lifetime False)" "conn sh' \<noteq> None" "cli sh' \<noteq> None"
     "retries sh' = (retries ?sh1)(k \<mapsto> budget ?sh1 k - 2)"
    by auto
  from r show ?thesis
    by (simp add: recover_def c budget_def)
qed

lemma attempt_on_mill:
  assumes "treads w" "cfg sh = host" "ctx sh = Some (Lifetime False)" "cli sh = Some c"
  shows "\<exists>w'. run_attempt w sh ''false'' (default_Op\<lparr>op_retries := 1\<rparr>) =
       Some (w', sh, Finished (Some []) (Some (Error ''exit status 1''))) \<and> treads w'"
proof -
  note h = treads_heads[OF assms(1)] and t = treads_tails[OF assms(1)]
  let ?ret = "default_Op\<lparr>op_retries := 1\<rparr>"
  let ?w1 = "w\<lparr>o_newSession := otl (o_newSession w),
     trace := trace w @ [NewSession, Log Info ''created client session, running command'']\<rparr>"
  let ?w2 = "?w1\<lparr>o_exec := otl (o_exec ?w1),
     trace := trace ?w1 @ [StartTask ''false'', SessionClose, CancelCall] @
       (if op_verbose ?ret then [Log Info ''ran command''] else [])\<rparr>"
  have os: "open_session w sh ?ret = (?w1, Return None)"
    using assms(2,4) h(7)
    by (simp add: open_session_def Let_def emit_def host_def default_Op_def)
  have z: "op_timeout ?ret = 0" by (simp add: default_Op_def)
  have ex: "ohd (o_exec ?w1) = breaks" using h(8) by simp
  have "execute ?w1 sh ''false'' ?ret = Some (?w2, sh, Finished (Some []) (Some (Error ''exit status 1'')))"
    by (simp only: execute_zero_timeout[OF z assms(3)] ex) (simp add: breaks_def)
  with os have "run_attempt w sh ''false'' ?ret =
      Some (?w2, sh, Finished (Some []) (Some (Error ''exit status 1'')))"
    by (simp add: run_attempt_def)
  moreover have "treads ?w2"
    using assms(1) t by (simp add: treads_def)
  ultimately show ?thesis by blast
qed

lemma Run_on_mill_aux:
  assumes "Run w0 sh0 cmd0 ret0 = Some y0"
  shows "\<not> (treads w0 \<and> on_mill sh0 \<and> cmd0 = ''false'' \<and> ret0 = default_Op\<lparr>op_retries := 1\<rparr>)"
proof (rule Run.raw_induct[where P = "\<lambda>w sh cmd ret y.
    \<not> (treads w \<and> on_mill sh \<and> cmd = ''false'' \<and> ret = default_Op\<lparr>op_retries := 1\<rparr>)",
    OF _ assms], goal_cases)
  case (1 f w sh cmd ret y)
  show ?case
  proof
    assume m: "treads w \<and> on_mill sh \<and> cmd = ''false'' \<and> ret = default_Op\<lparr>op_retries := 1\<rparr>"
    let ?k = "''ec2.testfalse''"
    let ?sh = "seed ?k 1 sh"
    from m have s: "cfg sh = host" "ctx sh = Some (Lifetime False)" "conn sh \<noteq> None" "cli sh \<noteq> None"
      "odd (budget ?sh ?k)"
      by (simp_all add: on_mill_def)
    then obtain c cn where c: "cli ?sh = Some c" "conn ?sh = Some cn" by auto
    from m have k: "PublicDNSName (cfg sh) @ cmd = ?k" "op_retries ret = 1"
      by (simp_all add: on_mill_def host_def default_Op_def)
    from attempt_on_mill[of w ?sh c] m s c obtain w1 where
      a: "run_attempt w ?sh ''false'' (default_Op\<lparr>op_retries := 1\<rparr>) =
            Some (w1, ?sh, Finished (Some []) (Some (Error ''exit status 1'')))" "treads w1"
      by auto
    from s(5) have nz: "budget ?sh ?k \<noteq> 0" by auto
    from recover_on_mill[of "emit (Log Warn ''command failed'') w1" ?sh "Lifetime False" cn ?k ret]
      a(2) s c
    obtain w2 sh2 where
      r: "recover (emit (Log Warn ''command failed'') w1) ?sh ?k ret = Some (w2, sh2, Return ())"
        "treads w2" "cfg sh2 = host" "ctx sh2 = Some (Lifetime False)" "conn sh2 \<noteq> None"
        "cli sh2 \<noteq> None" "retries sh2 = (retries ?sh)(?k \<mapsto> budget ?sh ?k - 2)"
      by auto
    from r(7) s(5) have "odd (budget (seed ?k 1 sh2) ?k)"
      by (simp add: seed_def budget_def)
    with r have on: "on_mill sh2" by (simp add: on_mill_def)
    from 1(2) m k a(1) nz r(1)
    have "Option.bind (f w2 sh2 cmd ret) (\<lambda>r. Some (conclude ?k r)) = Some y"
      by (simp add: Let_def)
    then obtain y2 where "f w2 sh2 cmd ret = Some y2"
      by (cases "f w2 sh2 cmd ret") auto
    from 1(1)[OF this] r(2) on m show False by simp
  qed
qed

lemma dependable_broken: "dependable broken"
  by (simp add: dependable_def always_def broken_def calm_def breaks_def)

lemma Run_broken_twice:
  "returned (Run broken connected ''false'' (default_Op\<lparr>op_retries := 2\<rparr>))
     = Some (Return (Some [], Some (Error ''exit status 1'')))"
  apply (subst Run.simps)
  apply (simp add: attempt_defs broken_def calm_def connected_def host_def default_Op_def
      breaks_def second_def recover_def Close_def reconnect_first)
  apply (subst Run.simps)
  apply (simp add: attempt_defs host_def breaks_def second_def recover_def Close_def reconnect_first)
  apply (subst Run.simps)
  apply (simp add: attempt_defs host_def breaks_def second_def returned_def conclude_def)
  done

text \<open>
  Claim C2, as the code has it. \<open>Run\<close>, \<open>Send\<close> and \<open>Download\<close> do not call
  themselves when the attempt succeeds (the ledger entry is deleted and the
  result returned) nor when the attempt fails while the ledger holds zero for
  the key (the failure is returned). On a dependable host, where every
  \<open>Connect\<close> of the reconnect loop succeeds at once and every attempt ends, each
  retry takes one from the budget, the budget reaches zero, and the three
  operations return.
\<close>

theorem retry_recursion_ends:
  "(run_attempt w (seed (PublicDNSName (cfg sh) @ cmd) (op_retries ret) sh) cmd ret
       = Some (w1, sh1, Finished out None) \<longrightarrow>
      Run w sh cmd ret = Some (w1, finish (PublicDNSName (cfg sh) @ cmd) None sh1, Return (out, None))) \<and>
   (run_attempt w (seed (PublicDNSName (cfg sh) @ cmd) (op_retries ret) sh) cmd ret
       = Some (w1, sh1, Finished out (Some e)) \<and> budget sh1 (PublicDNSName (cfg sh) @ cmd) = 0 \<longrightarrow>
      Run w sh cmd ret = Some (emit (Log Warn ''command failed'') w1, sh1, Return (out, Some e))) \<and>
   (scp_attempt dir w (seed (PublicDNSName (cfg sh) @ localPath) (op_retries ret) sh) localPath remotePath ret
       = Some (w1, sh1, Finished out None) \<longrightarrow>
      transfer dir w sh localPath remotePath ret =
        Some (w1, finish (PublicDNSName (cfg sh) @ localPath) None sh1, Return (out, None))) \<and>
   (scp_attempt dir w (seed (PublicDNSName (cfg sh) @ localPath) (op_retries ret) sh) localPath remotePath ret
       = Some (w1, sh1, Finished out (Some e)) \<and> budget sh1 (PublicDNSName (cfg sh) @ localPath) = 0 \<longrightarrow>
      transfer dir w sh localPath remotePath ret =
        Some (emit (Log Warn ''command failed'') w1, sh1, Return (out, Some e))) \<and>
   (dependable w \<longrightarrow>
      (\<exists>y. Run w sh cmd ret = Some y) \<and> (\<exists>y. Send w sh localPath remotePath ret = Some y) \<and>
      (\<exists>y. Download w sh remotePath localPath ret = Some y))"
proof -
  have 1: "Run w sh cmd ret = Some (w1, finish (PublicDNSName (cfg sh) @ cmd) None sh1, Return (out, None))"
    if "run_attempt w (seed (PublicDNSName (cfg sh) @ cmd) (op_retries ret) sh) cmd ret
       = Some (w1, sh1, Finished out None)"
    by (subst Run_protocol) (simp add: that failure_protocol_def)
  have 2: "Run w sh cmd ret = Some (emit (Log Warn ''command failed'') w1, sh1, Return (out, Some e))"
    if "run_attempt w (seed (PublicDNSName (cfg sh) @ cmd) (op_retries ret) sh) cmd ret
       = Some (w1, sh1, Finished out (Some e))" "budget sh1 (PublicDNSName (cfg sh) @ cmd) = 0"
    by (subst Run_protocol) (simp add: that failure_protocol_def finish_def)
  have 3: "transfer dir w sh localPath remotePath ret =
        Some (w1, finish (PublicDNSName (cfg sh) @ localPath) None sh1, Return (out, None))"
    if "scp_attempt dir w (seed (PublicDNSName (cfg sh) @ localPath) (op_retries ret) sh) localPath remotePath ret
       = Some (w1, sh1, Finished out None)"
    by (subst transfer_protocol) (simp add: that failure_protocol_def)
  have 4: "transfer dir w sh localPath remotePath ret =
        Some (emit (Log Warn ''command failed'') w1, sh1, Return (out, Some e))"
    if "scp_attempt dir w (seed (PublicDNSName (cfg sh) @ localPath) (op_retries ret) sh) localPath remotePath ret
       = Some (w1, sh1, Finished out (Some e))" "budget sh1 (PublicDNSName (cfg sh) @ localPath) = 0"
    by (subst transfer_protocol) (simp add: that failure_protocol_def finish_def)
  from 1 2 3 4 Run_returns[of w sh cmd ret] transfer_returns[of w Sending sh localPath remotePath ret]
    transfer_returns[of w Downloading sh localPath remotePath ret]
  show ?thesis
    unfolding Send_def Download_def by blast
qed

theorem retry_recursion_counterexample:
  "Run treadmill connected ''false'' (default_Op\<lparr>op_retries := 1\<rparr>) = None"
proof (cases "Run treadmill connected ''false'' (default_Op\<lparr>op_retries := 1\<rparr>)")
  case (Some y)
  have "treads treadmill" by (simp add: treads_def)
  moreover have "on_mill connected"
    by (simp add: on_mill_def connected_def seed_def budget_def)
  ultimately show ?thesis using Run_on_mill_aux[OF Some] by simp
qed simp

theorem retry_recursion_ends_witness:
  "dependable broken \<and>
   (\<exists>y. Run broken connected ''false'' (default_Op\<lparr>op_retries := 2\<rparr>) = Some y) \<and>
   (\<exists>y. Send broken connected ''a.txt'' ''/tmp/a.txt'' (default_Op\<lparr>op_retries := 2\<rparr>) = Some y) \<and>
   (\<exists>y. Download broken connected ''/tmp/a.txt'' ''a.txt'' (default_Op\<lparr>op_retries := 2\<rparr>) = Some y) \<and>
   returned (Run broken connected ''false'' (default_Op\<lparr>op_retries := 2\<rparr>))
     = Some (Return (Some [], Some (Error ''exit status 1'')))"
  using retry_recursion_ends[where w = broken and sh = connected and cmd = "''false''"
      and ret = "default_Op\<lparr>op_retries := 2\<rparr>" and localPath = "''a.txt''" and remotePath = "''/tmp/a.txt''"]
    dependable_broken Run_broken_twice
  by blast

subsection \<open>A client that was never connected\<close>

text \<open>
  Claim C10. On a client that \<open>New\<close> has made and \<open>Connect\<close> has not yet touched,
  \<open>Close\<close> and \<open>Run\<close> do not return a not-connected error: \<open>Close\<close> calls the nil
  cancel function and \<open>Run\<close> asks the nil client handle for a session, and both
  panic.
\<close>

theorem unconnected_client_panics:
  "Close w (New c) = (w, New c, Panic ''nil cancel function'') \<and>
   Run w (New c) cmd ret =
     Some (w, seed (PublicDNSName c @ cmd) (op_retries ret) (New c), Panic ''nil client'')"
  apply (subst Run.simps)
  apply (simp add: Close_def New_def run_attempt_def open_session_def seed_def Let_def)
  done

end
